theory Spec2Isabelle
  imports Complex_Main "HOL-Library.Multiset"
begin

section \<open>Strings\<close>

text \<open>
  A JavaScript string is a sequence of UTF-16 code units; a code unit is modelled as a
  natural number. \<open>js\<close> embeds an ASCII literal.
\<close>

type_synonym jsstring = "nat list"

definition js :: "string \<Rightarrow> jsstring" where
  "js s = map of_char s"

text \<open>
  The characters matched by \<^verbatim>\<open>\s\<close> in a regular expression and removed by
  \<^verbatim>\<open>String.prototype.trim\<close>: WhiteSpace and LineTerminator of ECMAScript.
\<close>

definition is_space :: "nat \<Rightarrow> bool" where
  "is_space c = (c \<in> set [9, 10, 11, 12, 13, 32, 160, 5760,
     8192, 8193, 8194, 8195, 8196, 8197, 8198, 8199, 8200, 8201, 8202,
     8232, 8233, 8239, 8287, 12288, 65279])"

text \<open>\<^verbatim>\<open>s.trim()\<close>\<close>

definition trim :: "jsstring \<Rightarrow> jsstring" where
  "trim s = rev (dropWhile is_space (rev (dropWhile is_space s)))"

text \<open>Decimal rendering of a non-negative integer, as a template literal produces it.\<close>

fun show_nat :: "nat \<Rightarrow> jsstring" where
  "show_nat n = (if n < 10 then [48 + n] else show_nat (n div 10) @ [48 + n mod 10])"

declare show_nat.simps [simp del]

section \<open>Data model\<close>

text \<open>
  The model follows the revision of the component that has short-answer questions and
  lecture reordering. The earlier revision has multiple-choice questions only; its label
  rule, its handling of a failed request or an unparseable response, and its second PDF
  pass are the same, and its save task differs only in not mirroring to the browser store.
  Its callback for one image, which maps the elements of a response without a guard, is
  modelled in its own right (\<open>analyzeImage_v1\<close>).
\<close>

text \<open>
  \<^verbatim>\<open>type Question = MCQ | ShortAnswerQuestion\<close>, discriminated by the field
  \<^verbatim>\<open>type\<close>. \<^verbatim>\<open>correctAnswer\<close> is optional.
\<close>

datatype Question =
    MCQ (q_id: jsstring) (q_question: jsstring) (q_options: "jsstring list")
        (q_correctAnswer: "nat option")
  | ShortAnswerQuestion (q_id: jsstring) (q_question: jsstring) (q_answer: jsstring)

record Lecture =
  lec_id :: jsstring
  lec_name :: jsstring
  lec_questions :: "Question list"

record Subject =
  sub_id :: jsstring
  sub_name :: jsstring
  sub_lectures :: "Lecture list"

type_synonym Library = "Subject list"

section \<open>Array helpers\<close>

text \<open>\<^verbatim>\<open>Array.prototype.findIndex\<close>; the result \<open>-1\<close> is \<open>None\<close>.\<close>

fun findIndex :: "('a \<Rightarrow> bool) \<Rightarrow> 'a list \<Rightarrow> nat option" where
  "findIndex P [] = None"
| "findIndex P (x # xs) = (if P x then Some 0 else map_option Suc (findIndex P xs))"

text \<open>\<^verbatim>\<open>xs.splice(i, 1)\<close>: the array that remains.\<close>

definition splice_remove :: "nat \<Rightarrow> 'a list \<Rightarrow> 'a list" where
  "splice_remove i xs = take i xs @ drop (Suc i) xs"

text \<open>\<^verbatim>\<open>xs.splice(i, 0, x)\<close>; a start beyond the end is clamped to the length.\<close>

definition splice_insert :: "nat \<Rightarrow> 'a \<Rightarrow> 'a list \<Rightarrow> 'a list" where
  "splice_insert i x xs = take i xs @ [x] @ drop i xs"

section \<open>Application state\<close>

text \<open>
  \<^verbatim>\<open>interface ExtractionResult\<close>. \<^verbatim>\<open>imageUrls[index]\<close> is \<open>None\<close> when the
  index is out of range; \<^verbatim>\<open>error\<close> is optional.
\<close>

record ExtractionResult =
  er_imageUrl :: "jsstring option"
  er_questions :: "Question list"
  er_error :: "jsstring option"

datatype ItemType = SubjectItem | LectureItem

record ItemToDelete =
  item_type :: ItemType
  item_id :: jsstring
  item_subjectId :: "jsstring option"

datatype SaveStatus = Idle | Saving | Saved | SaveError

text \<open>
  The \<^verbatim>\<open>useState\<close> cells of the \<^verbatim>\<open>App\<close> component that the handlers below
  read or write. An uploaded file is represented by its name. \<open>localStorage\<close> is the
  browser store; \<open>githubWrites\<close> records the calls of \<^verbatim>\<open>saveGithubFile\<close>
  (content, sha) in the order they are made.
\<close>

record App =
  images :: "jsstring list"
  imageUrls :: "jsstring list"
  extractionResults :: "ExtractionResult list"
  selectedStagedIds :: "jsstring set"
  isLoading :: bool
  error :: "jsstring option"
  subjects :: Library
  newSubjectName :: jsstring
  newLectureNames :: "jsstring \<rightharpoonup> jsstring"
  selectedSubjectId :: jsstring
  selectedLectureId :: jsstring
  selectedManageSubjectId :: jsstring
  selectedManageLectureId :: jsstring
  managedSubjectName :: jsstring
  editingQuestionId :: "jsstring option"
  editedContent :: "Question option"
  editingSubject :: "Subject option"
  isDeleteModalOpen :: bool
  itemToDelete :: "ItemToDelete option"
  deleteConfirmation :: jsstring
  deleteConfirmationError :: jsstring
  saveStatus :: SaveStatus
  localStorage :: "jsstring \<rightharpoonup> jsstring"
  githubWrites :: "(jsstring \<times> jsstring option) list"
  isPdfModalOpen :: bool
  selectedPdfLectures :: "jsstring set"
  pdfTextSize :: real
  pdfShowAnswers :: bool

text \<open>A string in a condition is truthy when it is not empty; \<^verbatim>\<open>undefined\<close> is falsy.\<close>

definition truthy :: "jsstring option \<Rightarrow> bool" where
  "truthy v = (case v of None \<Rightarrow> False | Some s \<Rightarrow> s \<noteq> [])"

text \<open>\<^verbatim>\<open>xs.map((x, i) => f(i, x))\<close>\<close>

definition mapi :: "(nat \<Rightarrow> 'a \<Rightarrow> 'b) \<Rightarrow> 'a list \<Rightarrow> 'b list" where
  "mapi f xs = map (\<lambda>(i, x). f i x) (enumerate 0 xs)"

section \<open>Reordering lectures: handleDrop\<close>

text \<open>
  The state updater of \<^verbatim>\<open>handleDrop\<close>. The deep copy through
  \<^verbatim>\<open>JSON.parse(JSON.stringify(prevSubjects))\<close> yields a structurally equal value;
  \<^verbatim>\<open>find\<close> selects the first subject with the id, and the two splices act on
  its lecture array. The target index is computed before the dragged lecture is removed.
\<close>

definition reorderLectures :: "jsstring \<Rightarrow> jsstring \<Rightarrow> Lecture list \<Rightarrow> Lecture list option" where
  "reorderLectures draggedLectureId droppedOnLectureId lectures =
     (case findIndex (\<lambda>l. lec_id l = draggedLectureId) lectures of
        None \<Rightarrow> None
      | Some draggedIndex \<Rightarrow>
          (case findIndex (\<lambda>l. lec_id l = droppedOnLectureId) lectures of
             None \<Rightarrow> None
           | Some targetIndex \<Rightarrow>
               Some (splice_insert targetIndex (lectures ! draggedIndex)
                       (splice_remove draggedIndex lectures))))"

definition handleDrop_update :: "jsstring \<Rightarrow> jsstring \<Rightarrow> jsstring \<Rightarrow> Library \<Rightarrow> Library" where
  "handleDrop_update draggedLectureId subjectId droppedOnLectureId prevSubjects =
     (case findIndex (\<lambda>s. sub_id s = subjectId) prevSubjects of
        None \<Rightarrow> prevSubjects
      | Some si \<Rightarrow>
          (case reorderLectures draggedLectureId droppedOnLectureId
                  (sub_lectures (prevSubjects ! si)) of
             None \<Rightarrow> prevSubjects
           | Some lectures' \<Rightarrow>
               prevSubjects[si := (prevSubjects ! si)\<lparr>sub_lectures := lectures'\<rparr>]))"

text \<open>
  \<^verbatim>\<open>handleDrop(e, subjectId, droppedOnLectureId)\<close>; the dragged id is read from the
  event's data transfer, and an empty id is falsy.
\<close>

definition handleDrop :: "jsstring \<Rightarrow> jsstring \<Rightarrow> jsstring \<Rightarrow> App \<Rightarrow> App" where
  "handleDrop draggedLectureId subjectId droppedOnLectureId st =
     (if draggedLectureId = [] \<or> draggedLectureId = droppedOnLectureId then st
      else st\<lparr>subjects :=
        handleDrop_update draggedLectureId subjectId droppedOnLectureId (subjects st)\<rparr>)"

section \<open>Library handlers\<close>

text \<open>
  \<^verbatim>\<open>handleAddSubject\<close>; \<open>now\<close> is the reading of \<^verbatim>\<open>Date.now()\<close>.
\<close>

definition handleAddSubject :: "nat \<Rightarrow> App \<Rightarrow> App" where
  "handleAddSubject now st =
     (if trim (newSubjectName st) \<noteq> [] then
        st\<lparr>subjects := subjects st @
              [\<lparr>sub_id = js ''sub-'' @ show_nat now, sub_name = trim (newSubjectName st),
                sub_lectures = []\<rparr>],
           newSubjectName := []\<rparr>
      else st)"

text \<open>\<^verbatim>\<open>handleUpdateSubject\<close>\<close>

definition handleUpdateSubject :: "App \<Rightarrow> App" where
  "handleUpdateSubject st =
     (case editingSubject st of
        None \<Rightarrow> st
      | Some editing \<Rightarrow>
          if trim (managedSubjectName st) \<noteq> [] then
            st\<lparr>subjects := map (\<lambda>sub. if sub_id sub = sub_id editing
                                      then sub\<lparr>sub_name := trim (managedSubjectName st)\<rparr>
                                      else sub) (subjects st),
               editingSubject := None\<rparr>
          else st)"

text \<open>An exception that a handler throws and that nothing catches.\<close>

datatype Thrown = TypeError

text \<open>
  The state after a handler has run. A handler that throws before its first state update
  leaves the state as it was.
\<close>

definition state_after :: "App \<Rightarrow> Thrown + App \<Rightarrow> App" where
  "state_after st r = (case r of Inl _ \<Rightarrow> st | Inr st' \<Rightarrow> st')"

text \<open>
  The property names that a plain object inherits from \<^verbatim>\<open>Object.prototype\<close>. Reading
  one of them from an object that has no own property of that name gives a function (for
  \<^verbatim>\<open>__proto__\<close>, the prototype object), not \<^verbatim>\<open>undefined\<close>.
\<close>

definition objectPrototypeKeys :: "jsstring list" where
  "objectPrototypeKeys = map js
     [''constructor'', ''__defineGetter__'', ''__defineSetter__'', ''hasOwnProperty'',
      ''__lookupGetter__'', ''__lookupSetter__'', ''isPrototypeOf'', ''propertyIsEnumerable'',
      ''toString'', ''valueOf'', ''__proto__'', ''toLocaleString'']"

text \<open>
  \<^verbatim>\<open>handleAddLecture(e, subjectId)\<close>. \<open>newLectureNames\<close> holds the own properties of
  the object. The name is \<^verbatim>\<open>newLectureNames[subjectId]?.trim()\<close>: for a subject with an
  own entry, the trimmed entry; for a subject without one, \<^verbatim>\<open>undefined\<close>, unless the id
  is an inherited property name: then the value read is not nullish and has no
  \<^verbatim>\<open>trim\<close>, and the call throws a \<^verbatim>\<open>TypeError\<close>. The condition is false for
  \<^verbatim>\<open>undefined\<close> and for the empty string.
\<close>

definition handleAddLecture :: "nat \<Rightarrow> jsstring \<Rightarrow> App \<Rightarrow> Thrown + App" where
  "handleAddLecture now subjectId st =
     (case newLectureNames st subjectId of
        None \<Rightarrow> if subjectId \<in> set objectPrototypeKeys then Inl TypeError else Inr st
      | Some name \<Rightarrow>
          (let lectureName = trim name in
           if lectureName \<noteq> [] then
             Inr (st\<lparr>subjects := map (\<lambda>sub. if sub_id sub = subjectId
                    then sub\<lparr>sub_lectures := sub_lectures sub @
                           [\<lparr>lec_id = js ''lec-'' @ show_nat now, lec_name = lectureName,
                             lec_questions = []\<rparr>]\<rparr>
                    else sub) (subjects st),
                newLectureNames := (newLectureNames st)(subjectId \<mapsto> [])\<rparr>)
           else Inr st))"

text \<open>
  \<^verbatim>\<open>String.prototype.toLowerCase\<close> on the letters A to Z. It is used only to
  compare the result with \<^verbatim>\<open>'delete'\<close>, and no code unit outside A to Z lower-cases
  to one of the letters of that word.
\<close>

definition toLowerCase :: "jsstring \<Rightarrow> jsstring" where
  "toLowerCase s = map (\<lambda>c. if 65 \<le> c \<and> c \<le> 90 then c + 32 else c) s"

text \<open>\<^verbatim>\<open>handleCancelDelete\<close>\<close>

definition handleCancelDelete :: "App \<Rightarrow> App" where
  "handleCancelDelete st =
     st\<lparr>isDeleteModalOpen := False, itemToDelete := None, deleteConfirmation := [],
        deleteConfirmationError := []\<rparr>"

text \<open>
  \<^verbatim>\<open>handleConfirmDelete\<close>: deletes a subject, or a lecture of a subject, after the
  confirmation text has been checked.
\<close>

definition handleConfirmDelete :: "App \<Rightarrow> App" where
  "handleConfirmDelete st =
     (if toLowerCase (deleteConfirmation st) \<noteq> js ''delete'' then
        st\<lparr>deleteConfirmationError := js ''Please type \"delete\" to confirm.''\<rparr>
      else
        handleCancelDelete
          (case itemToDelete st of
             None \<Rightarrow> st
           | Some item \<Rightarrow>
               (case item_type item of
                  SubjectItem \<Rightarrow>
                    st\<lparr>subjects := filter (\<lambda>sub. sub_id sub \<noteq> item_id item) (subjects st),
                       selectedManageSubjectId :=
                         (if selectedManageSubjectId st = item_id item then []
                          else selectedManageSubjectId st)\<rparr>
                | LectureItem \<Rightarrow>
                    if truthy (item_subjectId item) then
                      st\<lparr>subjects := map (\<lambda>sub. if sub_id sub = the (item_subjectId item)
                             then sub\<lparr>sub_lectures :=
                                    filter (\<lambda>lec. lec_id lec \<noteq> item_id item) (sub_lectures sub)\<rparr>
                             else sub) (subjects st),
                         selectedManageLectureId :=
                           (if selectedManageLectureId st = item_id item then []
                            else selectedManageLectureId st)\<rparr>
                    else st)))"

text \<open>\<^verbatim>\<open>handleDeleteQuestion(subjectId, lectureId, questionId)\<close>\<close>

definition handleDeleteQuestion :: "jsstring \<Rightarrow> jsstring \<Rightarrow> jsstring \<Rightarrow> App \<Rightarrow> App" where
  "handleDeleteQuestion subjectId lectureId questionId st =
     st\<lparr>subjects := map (\<lambda>sub.
        if sub_id sub \<noteq> subjectId then sub
        else sub\<lparr>sub_lectures := map (\<lambda>lec.
               if lec_id lec \<noteq> lectureId then lec
               else lec\<lparr>lec_questions :=
                      filter (\<lambda>q. q_id q \<noteq> questionId) (lec_questions lec)\<rparr>)
             (sub_lectures sub)\<rparr>) (subjects st)\<rparr>"

text \<open>\<^verbatim>\<open>handleSaveEdit\<close>: stores the edited question in place of the one with its id.\<close>

definition handleSaveEdit :: "App \<Rightarrow> App" where
  "handleSaveEdit st =
     (case editedContent st of
        None \<Rightarrow> st
      | Some edited \<Rightarrow>
          if \<not> truthy (editingQuestionId st) then st
          else
            st\<lparr>subjects := map (\<lambda>sub. sub\<lparr>sub_lectures := map (\<lambda>lec.
                   lec\<lparr>lec_questions := map (\<lambda>q. if q_id q = the (editingQuestionId st)
                                                  then edited else q) (lec_questions lec)\<rparr>)
                 (sub_lectures sub)\<rparr>) (subjects st),
               editingQuestionId := None, editedContent := None\<rparr>)"

section \<open>Vocabulary of the properties\<close>

definition subject_ids :: "Library \<Rightarrow> jsstring set" where
  "subject_ids L = set (map sub_id L)"

definition lecture_ids :: "Library \<Rightarrow> jsstring set" where
  "lecture_ids L = set (concat (map (map lec_id \<circ> sub_lectures) L))"

definition question_ids :: "Library \<Rightarrow> jsstring set" where
  "question_ids L =
     set (concat (map (concat \<circ> map (map q_id \<circ> lec_questions) \<circ> sub_lectures) L))"

text \<open>The lecture with id \<open>a\<close> is directly followed by the lecture with id \<open>b\<close>.\<close>

fun sits_before :: "jsstring \<Rightarrow> jsstring \<Rightarrow> Lecture list \<Rightarrow> bool" where
  "sits_before a b (x # y # r) = ((lec_id x = a \<and> lec_id y = b) \<or> sits_before a b (y # r))"
| "sits_before a b _ = False"

text \<open>Sample data.\<close>

definition lec :: "string \<Rightarrow> Lecture" where
  "lec n = \<lparr>lec_id = js n, lec_name = js n, lec_questions = []\<rparr>"

definition lib3 :: Library where
  "lib3 = [\<lparr>sub_id = js ''s'', sub_name = js ''S'', sub_lectures = [lec ''a'', lec ''b'', lec ''c'']\<rparr>]"

definition app0 :: App where
  "app0 = \<lparr>images = [], imageUrls = [], extractionResults = [], selectedStagedIds = {},
     isLoading = False, error = None, subjects = [], newSubjectName = [],
     newLectureNames = Map.empty, selectedSubjectId = [], selectedLectureId = [],
     selectedManageSubjectId = [], selectedManageLectureId = [], managedSubjectName = [],
     editingQuestionId = None, editedContent = None, editingSubject = None,
     isDeleteModalOpen = False, itemToDelete = None, deleteConfirmation = [],
     deleteConfirmationError = [], saveStatus = Idle, localStorage = Map.empty,
     githubWrites = [], isPdfModalOpen = False, selectedPdfLectures = {}, pdfTextSize = 12,
     pdfShowAnswers = True\<rparr>"

section \<open>Extraction: analyzeImages\<close>

definition is_alnum :: "nat \<Rightarrow> bool" where
  "is_alnum c = ((97 \<le> c \<and> c \<le> 122) \<or> (65 \<le> c \<and> c \<le> 90) \<or> (48 \<le> c \<and> c \<le> 57))"

text \<open>
  A match of \<^verbatim>\<open>/^\s*[a-zA-Z0-9]+[.)]\s*/\<close> at the start of a string, and what follows
  the match. The three character classes are pairwise disjoint, so the greedy match is the
  only one: all leading white space, the whole run of letters and digits (at least one),
  one full stop (46) or closing parenthesis (41), and all white space after it.
\<close>

definition marker_rest :: "jsstring \<Rightarrow> jsstring option" where
  "marker_rest s =
     (case dropWhile is_space s of
        [] \<Rightarrow> None
      | c # r1 \<Rightarrow>
          if \<not> is_alnum c then None
          else (case dropWhile is_alnum r1 of
                  [] \<Rightarrow> None
                | d # r2 \<Rightarrow> if d = 46 \<or> d = 41 then Some (dropWhile is_space r2) else None))"

text \<open>
  \<^verbatim>\<open>String(opt ?? '').replace(/^\s*[a-zA-Z0-9]+[.)]\s*/, '').trim()\<close> on an option
  text: the replacement removes the match, if there is one.
\<close>

definition stripLabel :: "jsstring \<Rightarrow> jsstring" where
  "stripLabel opt = trim (case marker_rest opt of None \<Rightarrow> opt | Some rest \<Rightarrow> rest)"

text \<open>
  An element of the parsed response array, as the fields the code reads. The response
  schema of the request types \<^verbatim>\<open>type\<close>, \<^verbatim>\<open>question\<close> and \<^verbatim>\<open>answer\<close> as
  strings and \<^verbatim>\<open>options\<close> as an array of strings. A field is \<open>None\<close> when it is
  absent or null; \<open>raw_options\<close> is \<open>None\<close> when \<^verbatim>\<open>q.options\<close> is not an array, and
  an entry of it is \<open>None\<close> when it is null.
\<close>

record RawQuestion =
  raw_type :: "jsstring option"
  raw_question :: "jsstring option"
  raw_options :: "jsstring option list option"
  raw_answer :: "jsstring option"

text \<open>
  The value of \<^verbatim>\<open>JSON.parse(response.text)\<close>: an array, whose null elements are
  \<open>None\<close>, or any other JSON value.
\<close>

datatype ParsedJson = JsonOther | JsonArray "RawQuestion option list"

text \<open>
  What one image's request comes to: the call rejects (transport, quota), the text of the
  response is not JSON and \<^verbatim>\<open>JSON.parse\<close> throws, or the text parses.
\<close>

datatype Response = Rejected | Unparseable | Parsed ParsedJson

text \<open>\<^verbatim>\<open>v || ''\<close> for an optional string\<close>

definition orEmpty :: "jsstring option \<Rightarrow> jsstring" where
  "orEmpty v = (case v of None \<Rightarrow> [] | Some s \<Rightarrow> s)"

text \<open>\<^verbatim>\<open>xs[i]\<close>, \<^verbatim>\<open>undefined\<close> out of range\<close>

definition nth_opt :: "'a list \<Rightarrow> nat \<Rightarrow> 'a option" where
  "nth_opt xs i = (if i < length xs then Some (xs ! i) else None)"

definition extId :: "nat \<Rightarrow> nat \<Rightarrow> nat \<Rightarrow> jsstring" where
  "extId now index qIndex =
     js ''ext-'' @ show_nat now @ js ''-'' @ show_nat index @ js ''-'' @ show_nat qIndex"

text \<open>
  The callback of \<^verbatim>\<open>parsedResponse.map\<close> on a non-null element; \<open>None\<close> is the
  \<^verbatim>\<open>null\<close> that the following \<^verbatim>\<open>filter\<close> drops. \<open>now index qIndex\<close> is the reading
  of \<^verbatim>\<open>Date.now()\<close> taken for the element.
\<close>

definition toQuestion :: "(nat \<Rightarrow> nat \<Rightarrow> nat) \<Rightarrow> nat \<Rightarrow> nat \<Rightarrow> RawQuestion \<Rightarrow> Question option" where
  "toQuestion now index qIndex q =
     (if raw_type q = Some (js ''mcq'') then
        Some (MCQ (extId (now index qIndex) index qIndex) (orEmpty (raw_question q))
                (map (\<lambda>opt. stripLabel (orEmpty opt))
                   (case raw_options q of None \<Rightarrow> [] | Some opts \<Rightarrow> opts))
                None)
      else if raw_type q = Some (js ''short_answer'') then
        Some (ShortAnswerQuestion (extId (now index qIndex) index qIndex)
                (orEmpty (raw_question q)) (orEmpty (raw_answer q)))
      else None)"

text \<open>The result of the \<^verbatim>\<open>catch\<close> block.\<close>

definition failedResult :: "jsstring list \<Rightarrow> nat \<Rightarrow> ExtractionResult" where
  "failedResult urls index =
     \<lparr>er_imageUrl = nth_opt urls index, er_questions = [],
      er_error = Some (js ''Failed to extract questions from image '' @ show_nat (index + 1)
                       @ js ''. Please try again.'')\<rparr>"

text \<open>
  The \<^verbatim>\<open>async (file, index) => ...\<close> callback. Reading \<^verbatim>\<open>q.type\<close> of a null
  element throws, which the \<^verbatim>\<open>catch\<close> block handles like every other exception.
\<close>

definition analyzeImage :: "(nat \<Rightarrow> nat \<Rightarrow> nat) \<Rightarrow> jsstring list \<Rightarrow> nat \<Rightarrow> Response \<Rightarrow> ExtractionResult" where
  "analyzeImage now urls index response =
     (case response of
        Rejected \<Rightarrow> failedResult urls index
      | Unparseable \<Rightarrow> failedResult urls index
      | Parsed JsonOther \<Rightarrow>
          \<lparr>er_imageUrl = nth_opt urls index, er_questions = [], er_error = None\<rparr>
      | Parsed (JsonArray parsedResponse) \<Rightarrow>
          (case those parsedResponse of
             None \<Rightarrow> failedResult urls index
           | Some qs \<Rightarrow>
               \<lparr>er_imageUrl = nth_opt urls index,
                er_questions = List.map_filter id (mapi (toQuestion now index) qs),
                er_error = None\<rparr>))"

text \<open>
  \<^verbatim>\<open>analyzeImages\<close>. \<open>service index\<close> is what the request for the image at position
  \<open>index\<close> comes to. \<^verbatim>\<open>Promise.all\<close> resolves to the results in the order of the
  images, whatever the order in which the requests complete.
\<close>

definition analyzeImages :: "(nat \<Rightarrow> nat \<Rightarrow> nat) \<Rightarrow> (nat \<Rightarrow> Response) \<Rightarrow> App \<Rightarrow> App" where
  "analyzeImages now service st =
     (if length (images st) = 0 then
        st\<lparr>error := Some (js ''Please upload one or more images first.'')\<rparr>
      else
        st\<lparr>isLoading := False,
           extractionResults :=
             mapi (\<lambda>index file. analyzeImage now (imageUrls st) index (service index)) (images st),
           selectedStagedIds := {},
           error := None\<rparr>)"

subsection \<open>The earlier revision of the callback\<close>

text \<open>
  In the earlier revision (\<^verbatim>\<open>src/index.tsx\<close>) every element of the array becomes a
  multiple-choice question: \<^verbatim>\<open>{ ...q, options: q.options.map(opt =>
  opt.replace(...).trim()), id, correctAnswer: undefined }\<close>, with no test of \<^verbatim>\<open>q.type\<close>
  and no guard. Mapping an element comes to an exception (the element is null, its
  \<^verbatim>\<open>options\<close> are not an array, or an option is null), to an object without a question
  text, which is no value of the declared type \<^verbatim>\<open>MCQ\<close>, or to a question.
\<close>

datatype Mapped = Throws | NoText | Made Question

definition toQuestion_v1 ::
  "(nat \<Rightarrow> nat \<Rightarrow> nat) \<Rightarrow> nat \<Rightarrow> nat \<Rightarrow> RawQuestion option \<Rightarrow> Mapped" where
  "toQuestion_v1 now index qIndex element =
     (case element of
        None \<Rightarrow> Throws
      | Some q \<Rightarrow>
          (case raw_options q of
             None \<Rightarrow> Throws
           | Some opts \<Rightarrow>
               (case those opts of
                  None \<Rightarrow> Throws
                | Some strings \<Rightarrow>
                    (case raw_question q of
                       None \<Rightarrow> NoText
                     | Some question \<Rightarrow>
                         Made (MCQ (extId (now index qIndex) index qIndex) question
                                 (map stripLabel strings) None)))))"

definition made :: "Mapped \<Rightarrow> Question option" where
  "made m = (case m of Made q \<Rightarrow> Some q | _ \<Rightarrow> None)"

text \<open>
  The \<^verbatim>\<open>async (file, index) => ...\<close> callback of the earlier revision. An exception
  while mapping reaches the \<^verbatim>\<open>catch\<close> block. The result is \<open>None\<close> when no exception
  is thrown and some element has no question text: then the result holds an object that
  is not a \<open>Question\<close>.
\<close>

definition analyzeImage_v1 ::
  "(nat \<Rightarrow> nat \<Rightarrow> nat) \<Rightarrow> jsstring list \<Rightarrow> nat \<Rightarrow> Response \<Rightarrow> ExtractionResult option" where
  "analyzeImage_v1 now urls index response =
     (case response of
        Rejected \<Rightarrow> Some (failedResult urls index)
      | Unparseable \<Rightarrow> Some (failedResult urls index)
      | Parsed JsonOther \<Rightarrow>
          Some \<lparr>er_imageUrl = nth_opt urls index, er_questions = [], er_error = None\<rparr>
      | Parsed (JsonArray parsedResponse) \<Rightarrow>
          (let mapped = mapi (toQuestion_v1 now index) parsedResponse in
           if Throws \<in> set mapped then Some (failedResult urls index)
           else if NoText \<in> set mapped then None
           else Some \<lparr>er_imageUrl = nth_opt urls index,
                      er_questions = List.map_filter made mapped, er_error = None\<rparr>))"

text \<open>The value of \<^verbatim>\<open>Promise.all\<close> in the earlier revision: one result per image.\<close>

definition results_v1 ::
  "(nat \<Rightarrow> nat \<Rightarrow> nat) \<Rightarrow> (nat \<Rightarrow> Response) \<Rightarrow> App \<Rightarrow> ExtractionResult option list" where
  "results_v1 now service st =
     mapi (\<lambda>index file. analyzeImage_v1 now (imageUrls st) index (service index)) (images st)"

text \<open>
  \<^verbatim>\<open>analyzeImages\<close> of the earlier revision, which has no selection of staged
  questions; \<open>None\<close> when a result is not an \<open>ExtractionResult\<close>.
\<close>

definition analyzeImages_v1 ::
  "(nat \<Rightarrow> nat \<Rightarrow> nat) \<Rightarrow> (nat \<Rightarrow> Response) \<Rightarrow> App \<Rightarrow> App option" where
  "analyzeImages_v1 now service st =
     (if length (images st) = 0 then
        Some (st\<lparr>error := Some (js ''Please upload one or more images first.'')\<rparr>)
      else
        (case those (results_v1 now service st) of
           None \<Rightarrow> None
         | Some results \<Rightarrow>
             Some (st\<lparr>isLoading := False, extractionResults := results, error := None\<rparr>)))"

section \<open>Staging: handleAddQuestionsToLecture\<close>

text \<open>\<^verbatim>\<open>{ ...q, id: i }\<close>\<close>

fun with_id :: "jsstring \<Rightarrow> Question \<Rightarrow> Question" where
  "with_id i (MCQ _ q opts c) = MCQ i q opts c"
| "with_id i (ShortAnswerQuestion _ q a) = ShortAnswerQuestion i q a"

text \<open>
  \<^verbatim>\<open>lib-${Date.now()}-${Math.random()}\<close>: \<open>now\<close> is the clock reading and \<open>random\<close>
  the text of the random number.
\<close>

definition libId :: "nat \<Rightarrow> jsstring \<Rightarrow> jsstring" where
  "libId now random = js ''lib-'' @ show_nat now @ js ''-'' @ random"

text \<open>
  \<^verbatim>\<open>handleAddQuestionsToLecture\<close>. \<open>now si li k\<close> and \<open>random si li k\<close> are the clock
  reading and the random text drawn for the \<open>k\<close>-th added question in lecture \<open>li\<close> of
  subject \<open>si\<close>.
\<close>

definition questionsToAdd :: "App \<Rightarrow> Question list" where
  "questionsToAdd st =
     filter (\<lambda>q. q_id q \<in> selectedStagedIds st)
       (concat (map er_questions (extractionResults st)))"

definition handleAddQuestionsToLecture ::
  "(nat \<Rightarrow> nat \<Rightarrow> nat \<Rightarrow> nat) \<Rightarrow> (nat \<Rightarrow> nat \<Rightarrow> nat \<Rightarrow> jsstring) \<Rightarrow> App \<Rightarrow> App" where
  "handleAddQuestionsToLecture now random st =
     (if selectedSubjectId st = [] \<or> selectedLectureId st = [] \<or> length (questionsToAdd st) = 0
      then st
      else
        st\<lparr>subjects :=
             mapi (\<lambda>si subject.
               if sub_id subject \<noteq> selectedSubjectId st then subject
               else subject\<lparr>sub_lectures :=
                 mapi (\<lambda>li lecture.
                   if lec_id lecture \<noteq> selectedLectureId st then lecture
                   else lecture\<lparr>lec_questions := lec_questions lecture @
                          mapi (\<lambda>k q. with_id (libId (now si li k) (random si li k)) q)
                            (questionsToAdd st)\<rparr>)
                 (sub_lectures subject)\<rparr>)
             (subjects st),
           extractionResults :=
             filter (\<lambda>result. length (er_questions result) > 0 \<or> truthy (er_error result))
               (map (\<lambda>result. result\<lparr>er_questions :=
                       filter (\<lambda>q. q_id q \<notin> selectedStagedIds st) (er_questions result)\<rparr>)
                  (extractionResults st)),
           selectedStagedIds := {}\<rparr>)"

text \<open>
  An element of a response that has the shape the schema asks for in both revisions: a
  multiple-choice question with its text and its options.
\<close>

definition mcqElement :: "jsstring \<Rightarrow> jsstring list \<Rightarrow> RawQuestion" where
  "mcqElement question opts =
     \<lparr>raw_type = Some (js ''mcq''), raw_question = Some question,
      raw_options = Some (map Some opts), raw_answer = None\<rparr>"

text \<open>A batch of three images, the request for the second of which is rejected.\<close>

definition batch3 :: App where
  "batch3 = app0\<lparr>images := [js ''a.png'', js ''b.png'', js ''c.png''],
                 imageUrls := [js ''blob:a'', js ''blob:b'', js ''blob:c'']\<rparr>"

definition service3 :: "nat \<Rightarrow> Response" where
  "service3 i =
     (if i = 1 then Rejected
      else if i = 0 then
        Parsed (JsonArray [Some (mcqElement (js ''Q0'') [js ''A) x'', js ''B) y''])])
      else Parsed (JsonArray [Some (mcqElement (js ''Q2'') [js ''1. z''])]))"

text \<open>
  The same batch with a first response that is JSON but no array and a second response
  that is not JSON.
\<close>

definition service_bad :: "nat \<Rightarrow> Response" where
  "service_bad i = (if i = 0 then Parsed JsonOther else Unparseable)"

text \<open>
  A staging session: two results, the second with an error; the first staged question is
  selected, and lecture \<open>b\<close> of subject \<open>s\<close> is chosen.
\<close>

definition staged :: App where
  "staged = app0\<lparr>subjects := lib3,
     extractionResults :=
       [\<lparr>er_imageUrl = Some (js ''blob:a''),
         er_questions = [ShortAnswerQuestion (js ''ext-1'') (js ''Q1'') (js ''A1''),
                         ShortAnswerQuestion (js ''ext-2'') (js ''Q2'') []],
         er_error = None\<rparr>,
        \<lparr>er_imageUrl = Some (js ''blob:b''), er_questions = [],
         er_error = Some (js ''Failed'')\<rparr>],
     selectedStagedIds := {js ''ext-1''},
     selectedSubjectId := js ''s'', selectedLectureId := js ''b''\<rparr>"

section \<open>Saving: the debounced task\<close>

text \<open>
  What \<^verbatim>\<open>getGithubFile\<close> comes to: it throws, it returns \<^verbatim>\<open>null\<close> (status 404),
  or it returns the file's \<^verbatim>\<open>content\<close> and \<^verbatim>\<open>sha\<close>.
\<close>

datatype ReadOutcome = ReadFailed | NotFound | Found jsstring jsstring

text \<open>
  What \<^verbatim>\<open>saveGithubFile\<close> comes to: it throws, or it returns the response, of which
  the code reads \<^verbatim>\<open>newFileData?.content?.sha\<close>.
\<close>

datatype WriteOutcome = WriteFailed | Written "jsstring option"

text \<open>\<^verbatim>\<open>s.replace(/\s/g, '')\<close>\<close>

definition strip_ws :: "jsstring \<Rightarrow> jsstring" where
  "strip_ws s = filter (\<lambda>c. \<not> is_space c) s"

text \<open>The \<^verbatim>\<open>catch\<close> block of the task.\<close>

definition saveFailed :: "App \<Rightarrow> App" where
  "saveFailed st =
     st\<lparr>saveStatus := SaveError,
        error := Some (js ''Failed to save data to GitHub. Please check your token and repository settings.'')\<rparr>"

text \<open>\<^verbatim>\<open>fileData?.sha || null\<close>\<close>

definition shaOrNull :: "ReadOutcome \<Rightarrow> jsstring option" where
  "shaOrNull fileData =
     (case fileData of Found content sha \<Rightarrow> (if sha = [] then None else Some sha) | _ \<Rightarrow> None)"

text \<open>
  The body of the timer callback of the save effect, run on the state whose Library the
  effect captured. \<open>stringify\<close> is \<^verbatim>\<open>JSON.stringify(subjects, null, 2)\<close>; \<open>btoa\<close> is
  \<^verbatim>\<open>btoa\<close>, which throws (\<open>None\<close>) on a character outside Latin-1; \<open>fileData\<close> is
  what the read comes to, and \<open>saveGithubFile content sha\<close> what the write comes to.
\<close>

definition saveTask ::
  "(Library \<Rightarrow> jsstring) \<Rightarrow> (jsstring \<Rightarrow> jsstring option) \<Rightarrow> ReadOutcome \<Rightarrow>
   (jsstring \<Rightarrow> jsstring option \<Rightarrow> WriteOutcome) \<Rightarrow> App \<Rightarrow> App" where
  "saveTask stringify btoa fileData saveGithubFile st =
     (if fileData = ReadFailed then saveFailed st
      else
        (let contentToSave = stringify (subjects st) in
         (case btoa contentToSave of
            None \<Rightarrow> saveFailed st
          | Some encodedContent \<Rightarrow>
              (if (case fileData of
                     Found content sha \<Rightarrow> strip_ws content = strip_ws encodedContent
                   | _ \<Rightarrow> False)
               then st\<lparr>saveStatus := Saved\<rparr>
               else
                 (let st1 = st\<lparr>githubWrites :=
                             githubWrites st @ [(encodedContent, shaOrNull fileData)]\<rparr> in
                  (case saveGithubFile encodedContent (shaOrNull fileData) of
                     WriteFailed \<Rightarrow> saveFailed st1
                   | Written newSha \<Rightarrow>
                       st1\<lparr>localStorage :=
                             (let stored =
                                    (localStorage st1)(js ''qsnap_subjects'' \<mapsto> contentToSave)
                              in if truthy newSha then stored(js ''qsnap_sha'' \<mapsto> the newSha)
                                 else stored),
                           saveStatus := Saved\<rparr>))))))"

section \<open>PDF export: generatePdf\<close>

text \<open>
  The part of a jsPDF document that \<^verbatim>\<open>generatePdf\<close> uses. A page is the sequence of
  the drawing operations made on it. Lengths and positions are reals, standing for the
  numbers of JavaScript; what is proved below about pages and footers does not depend on
  their values. The drawing state (font, sizes, colours, dash pattern) is kept in the
  document, and every operation records the state it was drawn in.
\<close>

record Style =
  fontStyle :: jsstring
  fontSize :: real
  textColor :: "nat \<times> nat \<times> nat"
  fillColor :: "nat \<times> nat \<times> nat"
  lineDash :: "real list"

text \<open>
  \<^verbatim>\<open>doc.text(lines, x, y, options)\<close> with right alignment or not and an optional line
  height factor, \<^verbatim>\<open>doc.rect(x, y, w, h, 'F')\<close> and \<^verbatim>\<open>doc.line(x1, y1, x2, y2)\<close>.
\<close>

datatype Draw =
    Text Style "jsstring list" real real bool "real option"
  | Rect Style real real real real
  | Line Style real real real real

record Doc =
  pages :: "Draw list list"
  currentPage :: nat
  style :: Style

text \<open>\<^verbatim>\<open>new jsPDF()\<close>: one empty page.\<close>

definition newDoc :: Doc where
  "newDoc = \<lparr>pages = [[]], currentPage = 1,
     style = \<lparr>fontStyle = js ''normal'', fontSize = 16, textColor = (0, 0, 0),
              fillColor = (0, 0, 0), lineDash = []\<rparr>\<rparr>"

text \<open>\<^verbatim>\<open>doc.addPage()\<close> appends a page and makes it the current one.\<close>

definition addPage :: "Doc \<Rightarrow> Doc" where
  "addPage d = d\<lparr>pages := pages d @ [[]], currentPage := length (pages d) + 1\<rparr>"

text \<open>\<^verbatim>\<open>doc.setPage(n)\<close> selects page \<open>n\<close> if there is one.\<close>

definition setPage :: "nat \<Rightarrow> Doc \<Rightarrow> Doc" where
  "setPage n d = (if 0 < n \<and> n \<le> length (pages d) then d\<lparr>currentPage := n\<rparr> else d)"

text \<open>
  \<^verbatim>\<open>doc.movePage(targetPage, beforePage)\<close> takes the page with number \<open>targetPage\<close> out
  and puts it at number \<open>beforePage\<close>, which becomes the current page.
\<close>

definition movePage :: "nat \<Rightarrow> nat \<Rightarrow> Doc \<Rightarrow> Doc" where
  "movePage targetPage beforePage d =
     (if targetPage = beforePage \<or> targetPage = 0 \<or> beforePage = 0 \<or>
         length (pages d) < targetPage \<or> length (pages d) < beforePage then d
      else setPage beforePage
             (d\<lparr>pages := splice_insert (beforePage - 1) (pages d ! (targetPage - 1))
                            (splice_remove (targetPage - 1) (pages d))\<rparr>))"

text \<open>A drawing operation goes to the current page.\<close>

definition draw :: "Draw \<Rightarrow> Doc \<Rightarrow> Doc" where
  "draw dop d =
     d\<lparr>pages := (pages d)[currentPage d - 1 := pages d ! (currentPage d - 1) @ [dop]]\<rparr>"

definition setFont :: "jsstring \<Rightarrow> Doc \<Rightarrow> Doc" where
  "setFont s d = d\<lparr>style := (style d)\<lparr>fontStyle := s\<rparr>\<rparr>"

definition setFontSize :: "real \<Rightarrow> Doc \<Rightarrow> Doc" where
  "setFontSize n d = d\<lparr>style := (style d)\<lparr>fontSize := n\<rparr>\<rparr>"

definition setTextColor :: "nat \<times> nat \<times> nat \<Rightarrow> Doc \<Rightarrow> Doc" where
  "setTextColor c d = d\<lparr>style := (style d)\<lparr>textColor := c\<rparr>\<rparr>"

definition setFillColor :: "nat \<times> nat \<times> nat \<Rightarrow> Doc \<Rightarrow> Doc" where
  "setFillColor c d = d\<lparr>style := (style d)\<lparr>fillColor := c\<rparr>\<rparr>"

definition setLineDashPattern :: "real list \<Rightarrow> Doc \<Rightarrow> Doc" where
  "setLineDashPattern p d = d\<lparr>style := (style d)\<lparr>lineDash := p\<rparr>\<rparr>"

definition doc_text :: "jsstring list \<Rightarrow> real \<Rightarrow> real \<Rightarrow> bool \<Rightarrow> real option \<Rightarrow> Doc \<Rightarrow> Doc" where
  "doc_text ls x y right factor d = draw (Text (style d) ls x y right factor) d"

definition doc_rect :: "real \<Rightarrow> real \<Rightarrow> real \<Rightarrow> real \<Rightarrow> Doc \<Rightarrow> Doc" where
  "doc_rect x y w h d = draw (Rect (style d) x y w h) d"

definition doc_line :: "real \<Rightarrow> real \<Rightarrow> real \<Rightarrow> real \<Rightarrow> Doc \<Rightarrow> Doc" where
  "doc_line x1 y1 x2 y2 d = draw (Line (style d) x1 y1 x2 y2) d"

text \<open>
  The measurements that jsPDF supplies: the page fsize, the scale factor,
  \<^verbatim>\<open>splitTextToSize\<close> (which returns at least one line, given as the first line and the
  others), \<^verbatim>\<open>getTextDimensions\<close> (width and height, for a font fsize and an optional line
  height factor) and \<^verbatim>\<open>getStringUnitWidth\<close>. They depend on the font set in the document.
\<close>

record Metrics =
  pageHeight :: real
  pageWidth :: real
  scaleFactor :: real
  splitTextToSize :: "Style \<Rightarrow> jsstring \<Rightarrow> real \<Rightarrow> jsstring \<times> jsstring list"
  getTextDimensions :: "Style \<Rightarrow> jsstring list \<Rightarrow> real \<Rightarrow> real option \<Rightarrow> real \<times> real"
  getStringUnitWidth :: "Style \<Rightarrow> jsstring \<Rightarrow> real"

definition margin :: real where
  "margin = 15"

definition defaultTextColor :: "nat \<times> nat \<times> nat" where
  "defaultTextColor = (26, 32, 44)"

definition darkTextColor :: "nat \<times> nat \<times> nat" where
  "darkTextColor = (26, 32, 44)"

definition gold :: "nat \<times> nat \<times> nat" where
  "gold = (252, 230, 148)"

datatype Level = SubjectLevel | LectureLevel

record TocEntry =
  toc_title :: jsstring
  toc_page :: nat
  toc_level :: Level

text \<open>The document, the cursor \<^verbatim>\<open>y\<close> and the table of contents gathered so far.\<close>

record Layout =
  l_doc :: Doc
  l_y :: real
  l_toc :: "TocEntry list"

text \<open>
  \<^verbatim>\<open>addWrappedText(text, x, yPos, { fontSize, fontStyle, highlight })\<close>: the document
  after drawing, and the position below the block.
\<close>

definition addWrappedText ::
  "Metrics \<Rightarrow> jsstring \<Rightarrow> real \<Rightarrow> real \<Rightarrow> real \<Rightarrow> jsstring \<Rightarrow> bool \<Rightarrow> Doc \<Rightarrow> Doc \<times> real" where
  "addWrappedText M txt x yPos0 fsize fstyle highlight d0 =
     (let d1 = setFontSize fsize (setFont fstyle d0);
          spl = splitTextToSize M (style d1) txt (pageWidth M - x - margin);
          lines = fst spl # snd spl;
          textBlockHeight = snd (getTextDimensions M (style d1) lines fsize (Some 1.25));
          overflow = (yPos0 + textBlockHeight > pageHeight M - margin);
          d2 = (if overflow then addPage d1 else d1);
          yPos = (if overflow then margin else yPos0);
          d3 = (if highlight then
                  (let d = setFillColor gold d2;
                       h = snd (getTextDimensions M (style d) [js ''M''] fsize None);
                       singleLineHeightWithFactor = h * 1.25
                   in fold (\<lambda>(index, ln) dd.
                          doc_rect (x - 1)
                               (yPos + real index * singleLineHeightWithFactor - h * 0.85)
                               (getStringUnitWidth M (style dd) ln * fsize / scaleFactor M + 2)
                               (h * 1.1) dd)
                        (enumerate 0 lines) d)
                else d2);
          d4 = setTextColor (if highlight then darkTextColor else defaultTextColor) d3;
          d5 = doc_text lines x yPos False (Some 1.25) d4;
          d6 = (if highlight then setTextColor defaultTextColor d5 else d5)
      in (d6, yPos + textBlockHeight))"

text \<open>\<^verbatim>\<open>y = addWrappedText(...) + gap\<close> on a layout.\<close>

definition emit ::
  "Metrics \<Rightarrow> jsstring \<Rightarrow> real \<Rightarrow> real \<Rightarrow> jsstring \<Rightarrow> bool \<Rightarrow> real \<Rightarrow> Layout \<Rightarrow> Layout" where
  "emit M txt x fsize fstyle highlight gap l =
     (let r = addWrappedText M txt x (l_y l) fsize fstyle highlight (l_doc l)
      in l\<lparr>l_doc := fst r, l_y := snd r + gap\<rparr>)"

text \<open>
  \<^verbatim>\<open>if (y + fsize * 1.5 > pageHeight - margin) { doc.addPage(); y = margin; }\<close> followed
  by \<^verbatim>\<open>toc.push({ title, page: doc.getNumberOfPages(), level })\<close>.
\<close>

definition heading :: "Metrics \<Rightarrow> real \<Rightarrow> jsstring \<Rightarrow> Level \<Rightarrow> Layout \<Rightarrow> Layout" where
  "heading M fsize title level l =
     (let l1 = (if l_y l + fsize * 1.5 > pageHeight M - margin
                then l\<lparr>l_doc := addPage (l_doc l), l_y := margin\<rparr> else l)
      in l1\<lparr>l_toc := l_toc l1 @
             [\<lparr>toc_title = title, toc_page = length (pages (l_doc l1)), toc_level = level\<rparr>]\<rparr>)"

text \<open>\<^verbatim>\<open>String.fromCharCode(n)\<close>: one code unit, \<open>n\<close> modulo \<open>2^16\<close>.\<close>

definition fromCharCode :: "nat \<Rightarrow> jsstring" where
  "fromCharCode n = [n mod 65536]"

text \<open>The body of \<^verbatim>\<open>q.options.forEach((opt, oIndex) => ...)\<close>.\<close>

definition renderOption ::
  "Metrics \<Rightarrow> real \<Rightarrow> bool \<Rightarrow> nat option \<Rightarrow> nat \<times> jsstring \<Rightarrow> Layout \<Rightarrow> Layout" where
  "renderOption M fsize showAnswers correctAnswer = (\<lambda>(oIndex, opt) l.
     (let isCorrect = (showAnswers \<and> correctAnswer = Some oIndex)
      in emit M (fromCharCode (97 + oIndex) @ js '') '' @ opt) (margin + 5) fsize
           (if isCorrect then js ''bold'' else js ''normal'') isCorrect 2 l))"

text \<open>The body of \<^verbatim>\<open>lecture.questions.forEach((q, qIndex) => ...)\<close>.\<close>

definition renderQuestion :: "Metrics \<Rightarrow> real \<Rightarrow> bool \<Rightarrow> nat \<times> Question \<Rightarrow> Layout \<Rightarrow> Layout" where
  "renderQuestion M fsize showAnswers = (\<lambda>(qIndex, q) l.
     (let l1 = emit M (show_nat (qIndex + 1) @ js ''. '' @ q_question q) margin fsize
                 (js ''normal'') False 5 l;
          l2 = (case q of
                  MCQ _ _ opts correctAnswer \<Rightarrow>
                    fold (renderOption M fsize showAnswers correctAnswer) (enumerate 0 opts) l1
                | ShortAnswerQuestion _ _ answer \<Rightarrow>
                    if showAnswers \<and> answer \<noteq> [] then
                      emit M (js ''Answer: '' @ answer) (margin + 5) fsize (js ''normal'') True 2 l1
                    else l1)
      in l2\<lparr>l_y := l_y l2 + 8\<rparr>))"

text \<open>The body of \<^verbatim>\<open>selectedLectures.forEach(lecture => ...)\<close>.\<close>

definition renderLecture :: "Metrics \<Rightarrow> real \<Rightarrow> bool \<Rightarrow> Lecture \<Rightarrow> Layout \<Rightarrow> Layout" where
  "renderLecture M baseFontSize showAnswers lecture l =
     (let lectureFontSize = baseFontSize * 1.2;
          l1 = heading M lectureFontSize (lec_name lecture) LectureLevel l;
          l2 = emit M (lec_name lecture) margin lectureFontSize (js ''bold'') True 8 l1
      in fold (renderQuestion M baseFontSize showAnswers)
           (enumerate 0 (lec_questions lecture)) l2)"

text \<open>The body of \<^verbatim>\<open>subjects.forEach(subject => ...)\<close>.\<close>

definition renderSubject ::
  "Metrics \<Rightarrow> real \<Rightarrow> bool \<Rightarrow> jsstring set \<Rightarrow> Subject \<Rightarrow> Layout \<Rightarrow> Layout" where
  "renderSubject M baseFontSize showAnswers selected subject l =
     (let selectedLectures = filter (\<lambda>lec. lec_id lec \<in> selected) (sub_lectures subject);
          subjectFontSize = baseFontSize * 1.4
      in if length selectedLectures = 0 then l
         else
           (let l1 = heading M subjectFontSize (sub_name subject) SubjectLevel l;
                l2 = emit M (sub_name subject) margin subjectFontSize (js ''bold'') True 10 l1
            in fold (renderLecture M baseFontSize showAnswers) selectedLectures l2))"

text \<open>Pass 1: the content, and the entries of the table of contents.\<close>

definition contentPass :: "Metrics \<Rightarrow> App \<Rightarrow> Layout" where
  "contentPass M st =
     fold (renderSubject M (pdfTextSize st) (pdfShowAnswers st) (selectedPdfLectures st))
       (subjects st)
       \<lparr>l_doc = setTextColor defaultTextColor newDoc, l_y = margin, l_toc = []\<rparr>"

text \<open>The body of \<^verbatim>\<open>toc.forEach(entry => ...)\<close>.\<close>

definition renderTocEntry :: "Metrics \<Rightarrow> real \<Rightarrow> TocEntry \<Rightarrow> Layout \<Rightarrow> Layout" where
  "renderTocEntry M baseFontSize entry l =
     (let l1 = (if l_y l > pageHeight M - margin
                then l\<lparr>l_doc := addPage (l_doc l), l_y := margin\<rparr> else l);
          d = l_doc l1;
          pageNumStr = show_nat (toc_page entry);
          x = (if toc_level entry = LectureLevel then margin + 10 else margin);
          pageNumWidth = getStringUnitWidth M (style d) pageNumStr * baseFontSize / scaleFactor M;
          availableWidth = pageWidth M - x - margin - pageNumWidth - 10;
          truncatedTitle = fst (splitTextToSize M (style d) (toc_title entry) availableWidth);
          titleWidth = getStringUnitWidth M (style d) truncatedTitle * baseFontSize / scaleFactor M;
          d1 = doc_text [truncatedTitle] x (l_y l1) False None d;
          d2 = doc_text [pageNumStr] (pageWidth M - margin) (l_y l1) True None d1;
          dotXStart = x + titleWidth + 2;
          dotXEnd = pageWidth M - margin - pageNumWidth - 2;
          dotY = l_y l1 - baseFontSize * 0.25;
          d3 = setLineDashPattern [0.5, 1.5] d2;
          d4 = (if dotXStart < dotXEnd then doc_line dotXStart dotY dotXEnd dotY d3 else d3);
          d5 = setLineDashPattern [] d4
      in l1\<lparr>l_doc := d5, l_y := l_y l1 + baseFontSize * 1.5\<rparr>)"

text \<open>
  Pass 2, the insertion of the page for the table of contents:
  \<^verbatim>\<open>doc.addPage(); doc.movePage(totalContentPages + 1, 1); doc.setPage(1)\<close>.
\<close>

definition insertTocPage :: "Doc \<Rightarrow> Doc" where
  "insertTocPage d =
     (let totalContentPages = length (pages d)
      in setPage 1 (movePage (totalContentPages + 1) 1 (addPage d)))"

text \<open>Pass 2, the table of contents, drawn from the top of the inserted page.\<close>

definition tocPass :: "Metrics \<Rightarrow> real \<Rightarrow> Layout \<Rightarrow> Layout" where
  "tocPass M baseFontSize l =
     (let l1 = emit M (js ''Table of Contents'') margin (baseFontSize * 1.4) (js ''bold'') False 15
                 (l\<lparr>l_doc := insertTocPage (l_doc l), l_y := margin\<rparr>);
          d2 = setTextColor defaultTextColor
                 (setFont (js ''normal'') (setFontSize baseFontSize (l_doc l1)))
      in fold (renderTocEntry M baseFontSize) (l_toc l) (l1\<lparr>l_doc := d2\<rparr>))"

definition footerText :: "nat \<Rightarrow> nat \<Rightarrow> jsstring" where
  "footerText i totalContentPages =
     js ''Page '' @ show_nat i @ js '' of '' @ show_nat totalContentPages"

text \<open>The body of \<^verbatim>\<open>for (let i = 2; i <= totalContentPages + 1; i++)\<close>.\<close>

definition stampFooter :: "Metrics \<Rightarrow> nat \<Rightarrow> nat \<Rightarrow> Doc \<Rightarrow> Doc" where
  "stampFooter M totalContentPages i d =
     (let d1 = setFontSize 10 (setPage i d);
          pageNumText = footerText (i - 1) totalContentPages;
          textMetrics = getTextDimensions M (style d1) [pageNumText] 10 None;
          rectX = pageWidth M - margin - fst textMetrics - 2;
          rectY = pageHeight M - 10 - snd textMetrics + 2;
          d2 = doc_rect rectX rectY (fst textMetrics + 4) (snd textMetrics) (setFillColor gold d1);
          d3 = doc_text [pageNumText] (pageWidth M - margin) (pageHeight M - 10) True None
                 (setTextColor darkTextColor d2)
      in setTextColor defaultTextColor d3)"

text \<open>
  \<^verbatim>\<open>generatePdf\<close>: the document handed to \<^verbatim>\<open>doc.save\<close>, and the state with the
  export dialog closed.
\<close>

definition generatePdf :: "Metrics \<Rightarrow> App \<Rightarrow> Doc \<times> App" where
  "generatePdf M st =
     (let content = contentPass M st;
          totalContentPages = length (pages (l_doc content));
          withToc = tocPass M (pdfTextSize st) content
      in (fold (stampFooter M totalContentPages) [2 ..< totalContentPages + 2] (l_doc withToc),
          st\<lparr>isPdfModalOpen := False\<rparr>))"

text \<open>The lines of a text operation.\<close>

definition draw_text :: "Draw \<Rightarrow> jsstring list option" where
  "draw_text dop = (case dop of Text _ ls _ _ _ _ \<Rightarrow> Some ls | _ \<Rightarrow> None)"

text \<open>
  While the table of contents is drawn: the content pages are the pages after the first,
  and the current page is the first page or a page after the content pages.
\<close>

definition toc_inv :: "Draw list list \<Rightarrow> Doc \<Rightarrow> bool" where
  "toc_inv content d =
     (length content < length (pages d) \<and>
      take (length content) (drop 1 (pages d)) = content \<and>
      (currentPage d = 1 \<or> length content + 1 < currentPage d))"

text \<open>Sample measurements and a sample export: 30 units per line on a page of 100.\<close>

definition M0 :: Metrics where
  "M0 = \<lparr>pageHeight = 100, pageWidth = 210, scaleFactor = 1,
     splitTextToSize = (\<lambda>s t w. (t, [])),
     getTextDimensions = (\<lambda>s ls fsize f. (10, 30 * real (length ls))),
     getStringUnitWidth = (\<lambda>s t. real (length t))\<rparr>"

definition pdf0 :: App where
  "pdf0 = app0\<lparr>subjects :=
       [\<lparr>sub_id = js ''s'', sub_name = js ''S'',
         sub_lectures = [\<lparr>lec_id = js ''a'', lec_name = js ''L'',
           lec_questions = [ShortAnswerQuestion (js ''q1'') (js ''Why?'') (js ''So'')]\<rparr>]\<rparr>],
     selectedPdfLectures := {js ''a''}\<rparr>"


section \<open>Verified properties\<close>

subsection \<open>Arrays\<close>

lemma findIndex_Some:
  "findIndex P xs = Some i \<Longrightarrow> i < length xs \<and> P (xs ! i) \<and> find P xs = Some (xs ! i)"
  by (induction xs arbitrary: i) (auto split: if_splits)

lemma findIndex_None: "findIndex P xs = None \<longleftrightarrow> find P xs = None"
  by (induction xs) auto

lemma findIndex_None_set: "findIndex P xs = None \<longleftrightarrow> (\<forall>x \<in> set xs. \<not> P x)"
  by (induction xs) auto

lemma length_splice_remove: "i < length xs \<Longrightarrow> length (splice_remove i xs) = length xs - 1"
  by (simp add: splice_remove_def)

lemma mset_splice_remove:
  "i < length xs \<Longrightarrow> add_mset (xs ! i) (mset (splice_remove i xs)) = mset xs"
proof -
  assume "i < length xs"
  then have "xs = take i xs @ xs ! i # drop (Suc i) xs" by (rule id_take_nth_drop)
  then have "mset xs = mset (take i xs @ xs ! i # drop (Suc i) xs)" by simp
  then show ?thesis by (simp add: splice_remove_def)
qed

lemma mset_splice_insert: "mset (splice_insert i x xs) = add_mset x (mset xs)"
proof -
  have "mset (take i xs) + mset (drop i xs) = mset xs"
    by (metis append_take_drop_id mset_append)
  then show ?thesis by (simp add: splice_insert_def)
qed

lemma length_splice_insert: "length (splice_insert i x xs) = Suc (length xs)"
  by (simp add: splice_insert_def)

lemma nth_splice_insert_at: "i \<le> length xs \<Longrightarrow> splice_insert i x xs ! i = x"
  by (simp add: splice_insert_def nth_append)

lemma nth_splice_insert_before: "j < i \<Longrightarrow> i \<le> length xs \<Longrightarrow> splice_insert i x xs ! j = xs ! j"
  by (simp add: splice_insert_def nth_append)

lemma nth_splice_insert_after: "i \<le> j \<Longrightarrow> j < length xs \<Longrightarrow> splice_insert i x xs ! Suc j = xs ! j"
  by (simp add: splice_insert_def nth_append min_def)

lemma nth_splice_remove_before: "j < i \<Longrightarrow> i < length xs \<Longrightarrow> splice_remove i xs ! j = xs ! j"
  by (simp add: splice_remove_def nth_append)

lemma nth_splice_remove_after: "i \<le> j \<Longrightarrow> Suc j < length xs \<Longrightarrow> splice_remove i xs ! j = xs ! Suc j"
  by (simp add: splice_remove_def nth_append min_def)

lemma splice_remove_insert: "i \<le> length xs \<Longrightarrow> splice_remove i (splice_insert i x xs) = xs"
  by (simp add: splice_remove_def splice_insert_def min_def)

lemma sits_before_nth:
  "Suc i < length xs \<Longrightarrow> lec_id (xs ! i) = a \<Longrightarrow> lec_id (xs ! Suc i) = b \<Longrightarrow> sits_before a b xs"
proof (induction a b xs arbitrary: i rule: sits_before.induct)
  case (1 a b x y r)
  then show ?case by (cases i) auto
qed auto

lemma reorderLectures_mset:
  "reorderLectures m t ls = Some ls' \<Longrightarrow> mset ls' = mset ls"
  by (auto simp: reorderLectures_def mset_splice_insert mset_splice_remove
      dest: findIndex_Some split: option.splits)

lemma reorderLectures_None:
  "reorderLectures m t ls = None \<longleftrightarrow> m \<notin> lec_id ` set ls \<or> t \<notin> lec_id ` set ls"
proof -
  have "reorderLectures m t ls = None \<longleftrightarrow>
      findIndex (\<lambda>l. lec_id l = m) ls = None \<or> findIndex (\<lambda>l. lec_id l = t) ls = None"
    by (simp add: reorderLectures_def split: option.splits)
  then show ?thesis unfolding findIndex_None_set by auto
qed

lemma reorderLectures_slot:
  assumes "findIndex (\<lambda>l. lec_id l = m) ls = Some di"
    and "findIndex (\<lambda>l. lec_id l = t) ls = Some ti"
  shows "\<exists>ls'. reorderLectures m t ls = Some ls' \<and> length ls' = length ls \<and>
     ls' ! ti = ls ! di \<and> splice_remove ti ls' = splice_remove di ls \<and>
     (ti < di \<longrightarrow> ls' ! Suc ti = ls ! ti) \<and> (di < ti \<longrightarrow> ls' ! (ti - 1) = ls ! ti)"
proof -
  from assms have d: "di < length ls" and t: "ti < length ls"
    by (auto dest: findIndex_Some)
  let ?ys = "splice_remove di ls"
  let ?ls' = "splice_insert ti (ls ! di) ?ys"
  have ly: "length ?ys = length ls - 1" using d by (rule length_splice_remove)
  with t have tle: "ti \<le> length ?ys" by simp
  have 1: "reorderLectures m t ls = Some ?ls'" using assms by (simp add: reorderLectures_def)
  have 2: "length ?ls' = length ls" using ly d by (simp add: length_splice_insert)
  have 3: "?ls' ! ti = ls ! di" using tle by (rule nth_splice_insert_at)
  have 4: "splice_remove ti ?ls' = ?ys" using tle by (rule splice_remove_insert)
  have 5: "?ls' ! Suc ti = ls ! ti" if "ti < di"
  proof -
    from that d ly have "ti < length ?ys" by simp
    then have "?ls' ! Suc ti = ?ys ! ti" by (simp add: nth_splice_insert_after)
    also have "\<dots> = ls ! ti" using that d by (simp add: nth_splice_remove_before)
    finally show ?thesis .
  qed
  have 6: "?ls' ! (ti - 1) = ls ! ti" if "di < ti"
  proof -
    from that have "ti - 1 < ti" by simp
    then have "?ls' ! (ti - 1) = ?ys ! (ti - 1)" using tle by (simp add: nth_splice_insert_before)
    also have "\<dots> = ls ! Suc (ti - 1)" using that t by (intro nth_splice_remove_after) auto
    finally show ?thesis using that by simp
  qed
  from 1 2 3 4 5 6 show ?thesis by blast
qed

subsection \<open>Reordering lectures\<close>

lemma handleDrop_update_noop_subject:
  "find (\<lambda>s. sub_id s = sid) L = None \<Longrightarrow> handleDrop_update m sid t L = L"
  by (simp add: handleDrop_update_def findIndex_None [symmetric])

lemma handleDrop_update_noop_lecture:
  assumes "find (\<lambda>s. sub_id s = sid) L = Some s"
    and "m \<notin> lec_id ` set (sub_lectures s) \<or> t \<notin> lec_id ` set (sub_lectures s)"
  shows "handleDrop_update m sid t L = L"
proof (cases "findIndex (\<lambda>s. sub_id s = sid) L")
  case None
  then show ?thesis by (simp add: handleDrop_update_def)
next
  case (Some si)
  then have "find (\<lambda>s. sub_id s = sid) L = Some (L ! si)" by (simp add: findIndex_Some)
  with assms(1) have "L ! si = s" by simp
  with assms(2) have "reorderLectures m t (sub_lectures (L ! si)) = None"
    by (simp add: reorderLectures_None)
  with Some show ?thesis by (simp add: handleDrop_update_def)
qed

lemma handleDrop_update_slot:
  assumes si: "findIndex (\<lambda>s. sub_id s = sid) L = Some si"
    and di: "findIndex (\<lambda>l. lec_id l = m) (sub_lectures (L ! si)) = Some di"
    and ti: "findIndex (\<lambda>l. lec_id l = t) (sub_lectures (L ! si)) = Some ti"
  shows "\<exists>ls'. handleDrop_update m sid t L = L[si := (L ! si)\<lparr>sub_lectures := ls'\<rparr>] \<and>
      length ls' = length (sub_lectures (L ! si)) \<and>
      ls' ! ti = sub_lectures (L ! si) ! di \<and>
      splice_remove ti ls' = splice_remove di (sub_lectures (L ! si)) \<and>
      (ti < di \<longrightarrow> sits_before m t ls') \<and> (di < ti \<longrightarrow> sits_before t m ls')"
proof -
  let ?ls = "sub_lectures (L ! si)"
  from reorderLectures_slot [OF di ti] obtain ls' where
    r: "reorderLectures m t ?ls = Some ls'" and len: "length ls' = length ?ls"
    and at: "ls' ! ti = ?ls ! di" and rest: "splice_remove ti ls' = splice_remove di ?ls"
    and up: "ti < di \<longrightarrow> ls' ! Suc ti = ?ls ! ti"
    and down: "di < ti \<longrightarrow> ls' ! (ti - 1) = ?ls ! ti"
    by blast
  from di have dlt: "di < length ?ls" and dm: "lec_id (?ls ! di) = m"
    by (auto dest: findIndex_Some)
  from ti have tlt: "ti < length ?ls" and tm: "lec_id (?ls ! ti) = t"
    by (auto dest: findIndex_Some)
  have h: "handleDrop_update m sid t L = L[si := (L ! si)\<lparr>sub_lectures := ls'\<rparr>]"
    using si r by (simp add: handleDrop_update_def)
  have before: "sits_before m t ls'" if "ti < di"
  proof (rule sits_before_nth [of ti])
    show "Suc ti < length ls'" using that dlt len by simp
    show "lec_id (ls' ! ti) = m" using at dm by simp
    show "lec_id (ls' ! Suc ti) = t" using up that tm by simp
  qed
  have after: "sits_before t m ls'" if "di < ti"
  proof (rule sits_before_nth [of "ti - 1"])
    show "Suc (ti - 1) < length ls'" using that tlt len by simp
    show "lec_id (ls' ! (ti - 1)) = t" using down that tm by simp
    show "lec_id (ls' ! Suc (ti - 1)) = m" using that at dm by simp
  qed
  from h len at rest before after show ?thesis by blast
qed

lemma map_list_update_same: "f y = f (xs ! i) \<Longrightarrow> map f (xs[i := y]) = map f xs"
  by (cases "i < length xs") (simp_all add: map_update list_update_same_conv list_update_beyond)

lemma handleDrop_update_perm:
  "map sub_id (handleDrop_update m sid t L) = map sub_id L \<and>
   map sub_name (handleDrop_update m sid t L) = map sub_name L \<and>
   map (\<lambda>s. mset (sub_lectures s)) (handleDrop_update m sid t L)
     = map (\<lambda>s. mset (sub_lectures s)) L"
  by (auto simp: handleDrop_update_def map_list_update_same reorderLectures_mset
      split: option.splits)

lemma subjects_handleDrop:
  "subjects (handleDrop m sid t st) =
     (if m = [] \<or> m = t then subjects st else handleDrop_update m sid t (subjects st))"
  by (simp add: handleDrop_def)

text \<open>
  Claim C1, as amended. \<^verbatim>\<open>handleDrop\<close> leaves the Library unchanged when the
  dragged id is empty or equals the target id, when no subject has the subject id, or when
  either lecture id is absent from the (first) subject with that id. Otherwise the dragged
  lecture is moved to the index that the target lecture had before the move: the result
  differs from the input only in that subject's lecture sequence, which has the same
  length, holds the dragged lecture at the target's former index, and from which removing
  that index gives the original sequence without the dragged lecture. Hence the dragged
  lecture sits directly before the target when it came from below the target, and directly
  after the target when it came from above it.
\<close>

theorem handleDrop_takes_target_slot:
  "(m = [] \<or> m = t \<longrightarrow> subjects (handleDrop m sid t st) = subjects st) \<and>
   (find (\<lambda>s. sub_id s = sid) (subjects st) = None
      \<longrightarrow> subjects (handleDrop m sid t st) = subjects st) \<and>
   (find (\<lambda>s. sub_id s = sid) (subjects st) = Some s \<and>
      (m \<notin> lec_id ` set (sub_lectures s) \<or> t \<notin> lec_id ` set (sub_lectures s))
      \<longrightarrow> subjects (handleDrop m sid t st) = subjects st) \<and>
   (m \<noteq> [] \<and> m \<noteq> t \<and> findIndex (\<lambda>s. sub_id s = sid) (subjects st) = Some si \<and>
      findIndex (\<lambda>l. lec_id l = m) (sub_lectures (subjects st ! si)) = Some di \<and>
      findIndex (\<lambda>l. lec_id l = t) (sub_lectures (subjects st ! si)) = Some ti
      \<longrightarrow> (\<exists>ls'. subjects (handleDrop m sid t st)
                   = (subjects st)[si := (subjects st ! si)\<lparr>sub_lectures := ls'\<rparr>] \<and>
            length ls' = length (sub_lectures (subjects st ! si)) \<and>
            ls' ! ti = sub_lectures (subjects st ! si) ! di \<and>
            splice_remove ti ls' = splice_remove di (sub_lectures (subjects st ! si)) \<and>
            (ti < di \<longrightarrow> sits_before m t ls') \<and> (di < ti \<longrightarrow> sits_before t m ls')))"
proof (intro conjI impI)
  assume "m = [] \<or> m = t"
  then show "subjects (handleDrop m sid t st) = subjects st"
    by (auto simp: handleDrop_def)
next
  assume "find (\<lambda>s. sub_id s = sid) (subjects st) = None"
  then show "subjects (handleDrop m sid t st) = subjects st"
    by (simp add: subjects_handleDrop handleDrop_update_noop_subject)
next
  assume "find (\<lambda>s. sub_id s = sid) (subjects st) = Some s \<and>
      (m \<notin> lec_id ` set (sub_lectures s) \<or> t \<notin> lec_id ` set (sub_lectures s))"
  then have "handleDrop_update m sid t (subjects st) = subjects st"
    by (blast intro: handleDrop_update_noop_lecture)
  then show "subjects (handleDrop m sid t st) = subjects st"
    by (simp add: subjects_handleDrop)
next
  assume a: "m \<noteq> [] \<and> m \<noteq> t \<and> findIndex (\<lambda>s. sub_id s = sid) (subjects st) = Some si \<and>
      findIndex (\<lambda>l. lec_id l = m) (sub_lectures (subjects st ! si)) = Some di \<and>
      findIndex (\<lambda>l. lec_id l = t) (sub_lectures (subjects st ! si)) = Some ti"
  then have "subjects (handleDrop m sid t st) = handleDrop_update m sid t (subjects st)"
    by (simp add: subjects_handleDrop)
  with a show "\<exists>ls'. subjects (handleDrop m sid t st)
                   = (subjects st)[si := (subjects st ! si)\<lparr>sub_lectures := ls'\<rparr>] \<and>
            length ls' = length (sub_lectures (subjects st ! si)) \<and>
            ls' ! ti = sub_lectures (subjects st ! si) ! di \<and>
            splice_remove ti ls' = splice_remove di (sub_lectures (subjects st ! si)) \<and>
            (ti < di \<longrightarrow> sits_before m t ls') \<and> (di < ti \<longrightarrow> sits_before t m ls')"
    using handleDrop_update_slot [of sid "subjects st" si m di t ti] by simp
qed

text \<open>
  Claim C1 as stated fails when the dragged lecture precedes the target: dragging \<open>a\<close> onto
  \<open>c\<close> in \<open>[a, b, c]\<close> gives \<open>[b, c, a]\<close>, where \<open>a\<close> follows \<open>c\<close>.
\<close>

theorem handleDrop_before_target_counterexample:
  "js ''a'' \<noteq> js ''c'' \<and>
   js ''a'' \<in> lec_id ` set (sub_lectures (lib3 ! 0)) \<and>
   js ''c'' \<in> lec_id ` set (sub_lectures (lib3 ! 0)) \<and>
   map (map lec_id \<circ> sub_lectures)
       (subjects (handleDrop (js ''a'') (js ''s'') (js ''c'') (app0\<lparr>subjects := lib3\<rparr>)))
     = [[js ''b'', js ''c'', js ''a'']] \<and>
   \<not> sits_before (js ''a'') (js ''c'')
       (sub_lectures
          (subjects (handleDrop (js ''a'') (js ''s'') (js ''c'') (app0\<lparr>subjects := lib3\<rparr>)) ! 0))"
  by (simp add: handleDrop_def handleDrop_update_def lib3_def js_def reorderLectures_def
      splice_insert_def splice_remove_def lec_def)

theorem handleDrop_takes_target_slot_witness:
  "subjects (handleDrop (js ''a'') (js ''s'') (js ''a'') (app0\<lparr>subjects := lib3\<rparr>)) = lib3 \<and>
   subjects (handleDrop (js ''a'') (js ''x'') (js ''c'') (app0\<lparr>subjects := lib3\<rparr>)) = lib3 \<and>
   subjects (handleDrop (js ''a'') (js ''s'') (js ''z'') (app0\<lparr>subjects := lib3\<rparr>)) = lib3 \<and>
   sits_before (js ''c'') (js ''a'') (sub_lectures
     (subjects (handleDrop (js ''c'') (js ''s'') (js ''a'') (app0\<lparr>subjects := lib3\<rparr>)) ! 0)) \<and>
   sits_before (js ''c'') (js ''a'') (sub_lectures
     (subjects (handleDrop (js ''a'') (js ''s'') (js ''c'') (app0\<lparr>subjects := lib3\<rparr>)) ! 0))"
proof -
  let ?st = "app0\<lparr>subjects := lib3\<rparr>"
  have 1: "subjects (handleDrop (js ''a'') (js ''s'') (js ''a'') ?st) = lib3"
    using handleDrop_takes_target_slot [of "js ''a''" "js ''a''" "js ''s''" ?st] by simp
  have 2: "subjects (handleDrop (js ''a'') (js ''x'') (js ''c'') ?st) = lib3"
    using handleDrop_takes_target_slot [of "js ''a''" "js ''c''" "js ''x''" ?st]
    by (simp add: lib3_def js_def)
  have 3: "subjects (handleDrop (js ''a'') (js ''s'') (js ''z'') ?st) = lib3"
    using handleDrop_takes_target_slot [of "js ''a''" "js ''z''" "js ''s''" ?st "lib3 ! 0"]
    by (simp add: lib3_def js_def lec_def)
  have 4: "sits_before (js ''c'') (js ''a'') (sub_lectures
     (subjects (handleDrop (js ''c'') (js ''s'') (js ''a'') ?st) ! 0))"
  proof -
    have "js ''c'' \<noteq> [] \<and> js ''c'' \<noteq> js ''a'' \<and>
        findIndex (\<lambda>s. sub_id s = js ''s'') (subjects ?st) = Some 0 \<and>
        findIndex (\<lambda>l. lec_id l = js ''c'') (sub_lectures (subjects ?st ! 0)) = Some 2 \<and>
        findIndex (\<lambda>l. lec_id l = js ''a'') (sub_lectures (subjects ?st ! 0)) = Some 0"
      by (simp add: lib3_def js_def lec_def)
    with handleDrop_takes_target_slot [of "js ''c''" "js ''a''" "js ''s''" ?st _ 0 2 0]
    obtain ls' where "subjects (handleDrop (js ''c'') (js ''s'') (js ''a'') ?st)
          = (subjects ?st)[0 := (subjects ?st ! 0)\<lparr>sub_lectures := ls'\<rparr>]"
      and "sits_before (js ''c'') (js ''a'') ls'"
      by auto
    then show ?thesis by (simp add: lib3_def)
  qed
  have 5: "sits_before (js ''c'') (js ''a'') (sub_lectures
     (subjects (handleDrop (js ''a'') (js ''s'') (js ''c'') ?st) ! 0))"
  proof -
    have "js ''a'' \<noteq> [] \<and> js ''a'' \<noteq> js ''c'' \<and>
        findIndex (\<lambda>s. sub_id s = js ''s'') (subjects ?st) = Some 0 \<and>
        findIndex (\<lambda>l. lec_id l = js ''a'') (sub_lectures (subjects ?st ! 0)) = Some 0 \<and>
        findIndex (\<lambda>l. lec_id l = js ''c'') (sub_lectures (subjects ?st ! 0)) = Some 2"
      by (simp add: lib3_def js_def lec_def)
    with handleDrop_takes_target_slot [of "js ''a''" "js ''c''" "js ''s''" ?st _ 0 0 2]
    obtain ls' where "subjects (handleDrop (js ''a'') (js ''s'') (js ''c'') ?st)
          = (subjects ?st)[0 := (subjects ?st ! 0)\<lparr>sub_lectures := ls'\<rparr>]"
      and "sits_before (js ''c'') (js ''a'') ls'"
      by auto
    then show ?thesis by (simp add: lib3_def)
  qed
  from 1 2 3 4 5 show ?thesis by blast
qed

text \<open>
  Claim C8. A reorder never changes which subjects there are, nor their ids and names, and
  the lectures of every subject after the reorder are, as a multiset of whole lecture
  records (id, name and questions), the lectures before it: only their order can change.
  Dropping a lecture on itself returns the state, and so the Library, unchanged.
\<close>

theorem handleDrop_permutes_lectures:
  "map sub_id (subjects (handleDrop m sid t st)) = map sub_id (subjects st) \<and>
   map sub_name (subjects (handleDrop m sid t st)) = map sub_name (subjects st) \<and>
   map (\<lambda>s. mset (sub_lectures s)) (subjects (handleDrop m sid t st))
     = map (\<lambda>s. mset (sub_lectures s)) (subjects st) \<and>
   handleDrop m sid m st = st"
proof -
  have "handleDrop m sid m st = st" by (simp add: handleDrop_def)
  then show ?thesis
    using handleDrop_update_perm [of m sid t "subjects st"] by (simp add: subjects_handleDrop)
qed

subsection \<open>Ids that are not in the Library\<close>

lemma lecture_ids_mem:
  "s \<in> set L \<Longrightarrow> l \<in> set (sub_lectures s) \<Longrightarrow> lec_id l \<in> lecture_ids L"
  by (auto simp: lecture_ids_def)

lemma question_ids_mem:
  "s \<in> set L \<Longrightarrow> l \<in> set (sub_lectures s) \<Longrightarrow> q \<in> set (lec_questions l)
    \<Longrightarrow> q_id q \<in> question_ids L"
  by (auto simp: question_ids_def)

lemma subject_ids_mem: "s \<in> set L \<Longrightarrow> sub_id s \<in> subject_ids L"
  by (simp add: subject_ids_def)

lemma addLecture_absent:
  assumes "sid \<notin> subject_ids (subjects st)"
    and "sid \<notin> set objectPrototypeKeys \<or> newLectureNames st sid \<noteq> None"
  shows "handleAddLecture now sid st \<noteq> Inl TypeError"
    and "subjects (state_after st (handleAddLecture now sid st)) = subjects st"
    and "error (state_after st (handleAddLecture now sid st)) = error st"
proof -
  have "map (\<lambda>sub. if sub_id sub = sid then f sub else sub) (subjects st) = subjects st" for f
    using assms(1) by (intro map_idI) (auto dest: subject_ids_mem)
  then show "subjects (state_after st (handleAddLecture now sid st)) = subjects st"
    by (simp add: handleAddLecture_def state_after_def Let_def split: option.splits)
  show "error (state_after st (handleAddLecture now sid st)) = error st"
    by (simp add: handleAddLecture_def state_after_def Let_def split: option.splits)
  show "handleAddLecture now sid st \<noteq> Inl TypeError"
    using assms(2) by (auto simp: handleAddLecture_def Let_def split: option.splits)
qed

lemma deleteLecture_update_absent:
  assumes "sid \<notin> subject_ids L \<or> lid \<notin> lecture_ids L"
  shows "map (\<lambda>sub. if sub_id sub = sid
             then sub\<lparr>sub_lectures := filter (\<lambda>lec. lec_id lec \<noteq> lid) (sub_lectures sub)\<rparr>
             else sub) L = L"
proof (rule map_idI)
  fix s assume s: "s \<in> set L"
  show "(if sub_id s = sid
         then s\<lparr>sub_lectures := filter (\<lambda>lec. lec_id lec \<noteq> lid) (sub_lectures s)\<rparr> else s) = s"
  proof (cases "sub_id s = sid")
    case True
    with s assms have "lid \<notin> lecture_ids L" by (auto dest: subject_ids_mem)
    with s have "filter (\<lambda>lec. lec_id lec \<noteq> lid) (sub_lectures s) = sub_lectures s"
      by (intro filter_True) (auto dest: lecture_ids_mem)
    then show ?thesis by simp
  qed simp
qed

lemma confirmDelete_absent:
  assumes "itemToDelete st = Some item" "item_type item = LectureItem"
    and "item_subjectId item = Some sid"
    and "sid \<notin> subject_ids (subjects st) \<or> item_id item \<notin> lecture_ids (subjects st)"
  shows "subjects (handleConfirmDelete st) = subjects st"
    and "error (handleConfirmDelete st) = error st"
  using assms deleteLecture_update_absent [OF assms(4)]
  by (simp_all add: handleConfirmDelete_def handleCancelDelete_def)

lemma deleteQuestion_absent:
  assumes "sid \<notin> subject_ids (subjects st) \<or> lid \<notin> lecture_ids (subjects st)
      \<or> qid \<notin> question_ids (subjects st)"
  shows "subjects (handleDeleteQuestion sid lid qid st) = subjects st"
    and "error (handleDeleteQuestion sid lid qid st) = error st"
proof -
  let ?L = "subjects st"
  let ?g = "\<lambda>lec. if lec_id lec \<noteq> lid then lec
               else lec\<lparr>lec_questions := filter (\<lambda>q. q_id q \<noteq> qid) (lec_questions lec)\<rparr>"
  let ?f = "\<lambda>sub. if sub_id sub \<noteq> sid then sub
               else sub\<lparr>sub_lectures := map ?g (sub_lectures sub)\<rparr>"
  have "?f s = s" if s: "s \<in> set ?L" for s
  proof (cases "sub_id s = sid")
    case True
    have "?g l = l" if l: "l \<in> set (sub_lectures s)" for l
    proof (cases "lec_id l = lid")
      case lid: True
      from True lid s l assms have "qid \<notin> question_ids ?L"
        by (auto dest: subject_ids_mem lecture_ids_mem)
      with s l have "filter (\<lambda>q. q_id q \<noteq> qid) (lec_questions l) = lec_questions l"
        by (intro filter_True) (auto dest: question_ids_mem)
      then show ?thesis by simp
    qed simp
    then have "map ?g (sub_lectures s) = sub_lectures s" by (intro map_idI) 
    then show ?thesis by simp
  qed simp
  then have "map ?f ?L = ?L" by (intro map_idI)
  then show "subjects (handleDeleteQuestion sid lid qid st) = subjects st"
    by (simp add: handleDeleteQuestion_def)
  show "error (handleDeleteQuestion sid lid qid st) = error st"
    by (simp add: handleDeleteQuestion_def)
qed

lemma saveEdit_absent:
  assumes "editingQuestionId st = Some qid" "qid \<notin> question_ids (subjects st)"
  shows "subjects (handleSaveEdit st) = subjects st"
    and "error (handleSaveEdit st) = error st"
proof -
  let ?L = "subjects st"
  have "map (\<lambda>sub. sub\<lparr>sub_lectures := map (\<lambda>lec.
                   lec\<lparr>lec_questions := map (\<lambda>q. if q_id q = qid then e else q)
                     (lec_questions lec)\<rparr>) (sub_lectures sub)\<rparr>) ?L = ?L" for e
  proof (rule map_idI)
    fix s assume s: "s \<in> set ?L"
    have "map (\<lambda>lec. lec\<lparr>lec_questions := map (\<lambda>q. if q_id q = qid then e else q)
                     (lec_questions lec)\<rparr>) (sub_lectures s) = sub_lectures s"
    proof (rule map_idI)
      fix l assume l: "l \<in> set (sub_lectures s)"
      have "map (\<lambda>q. if q_id q = qid then e else q) (lec_questions l) = lec_questions l"
        using s l assms(2) by (intro map_idI) (auto dest: question_ids_mem)
      then show "l\<lparr>lec_questions := map (\<lambda>q. if q_id q = qid then e else q)
                     (lec_questions l)\<rparr> = l" by simp
    qed
    then show "s\<lparr>sub_lectures := map (\<lambda>lec. lec\<lparr>lec_questions :=
        map (\<lambda>q. if q_id q = qid then e else q) (lec_questions lec)\<rparr>) (sub_lectures s)\<rparr> = s"
      by simp
  qed
  then show "subjects (handleSaveEdit st) = subjects st"
    using assms(1) by (simp add: handleSaveEdit_def truthy_def split: option.splits)
  show "error (handleSaveEdit st) = error st"
    by (simp add: handleSaveEdit_def split: option.splits)
qed

lemma handleDrop_absent:
  assumes "sid \<notin> subject_ids (subjects st) \<or> m \<notin> lecture_ids (subjects st)
      \<or> t \<notin> lecture_ids (subjects st)"
  shows "subjects (handleDrop m sid t st) = subjects st"
    and "error (handleDrop m sid t st) = error st"
proof -
  let ?L = "subjects st"
  have "handleDrop_update m sid t ?L = ?L"
  proof (cases "find (\<lambda>s. sub_id s = sid) ?L")
    case None
    then show ?thesis by (rule handleDrop_update_noop_subject)
  next
    case (Some s)
    then have s: "s \<in> set ?L" and "sub_id s = sid"
      by (auto simp: find_Some_iff)
    with assms have "m \<notin> lecture_ids ?L \<or> t \<notin> lecture_ids ?L"
      by (auto dest: subject_ids_mem)
    with s have "m \<notin> lec_id ` set (sub_lectures s) \<or> t \<notin> lec_id ` set (sub_lectures s)"
      by (auto dest: lecture_ids_mem)
    with Some show ?thesis by (rule handleDrop_update_noop_lecture)
  qed
  then show "subjects (handleDrop m sid t st) = subjects st"
    by (simp add: subjects_handleDrop)
  show "error (handleDrop m sid t st) = error st"
    by (simp add: handleDrop_def)
qed


text \<open>
  Ids that occur nowhere in the Library. Deleting a lecture, deleting a question, updating
  a question and reordering a lecture leave the Library and the error message of the
  application as they were. So does adding a lecture, without throwing, when the subject
  id is not an inherited property name of the table of lecture names, or has an own entry
  there.
\<close>

lemma absent_id_is_noop:
  "(sid \<notin> subject_ids (subjects st) \<and>
      (sid \<notin> set objectPrototypeKeys \<or> newLectureNames st sid \<noteq> None)
      \<longrightarrow> handleAddLecture now sid st \<noteq> Inl TypeError \<and>
          subjects (state_after st (handleAddLecture now sid st)) = subjects st \<and>
          error (state_after st (handleAddLecture now sid st)) = error st) \<and>
   (itemToDelete st = Some item \<and> item_type item = LectureItem \<and>
      item_subjectId item = Some sid \<and>
      (sid \<notin> subject_ids (subjects st) \<or> item_id item \<notin> lecture_ids (subjects st))
      \<longrightarrow> subjects (handleConfirmDelete st) = subjects st \<and>
          error (handleConfirmDelete st) = error st) \<and>
   (sid \<notin> subject_ids (subjects st) \<or> lid \<notin> lecture_ids (subjects st) \<or>
      qid \<notin> question_ids (subjects st)
      \<longrightarrow> subjects (handleDeleteQuestion sid lid qid st) = subjects st \<and>
          error (handleDeleteQuestion sid lid qid st) = error st) \<and>
   (editingQuestionId st = Some qid \<and> qid \<notin> question_ids (subjects st)
      \<longrightarrow> subjects (handleSaveEdit st) = subjects st \<and>
          error (handleSaveEdit st) = error st) \<and>
   (sid \<notin> subject_ids (subjects st) \<or> m \<notin> lecture_ids (subjects st) \<or>
      t \<notin> lecture_ids (subjects st)
      \<longrightarrow> subjects (handleDrop m sid t st) = subjects st \<and>
          error (handleDrop m sid t st) = error st)"
proof (intro conjI impI)
  assume a: "sid \<notin> subject_ids (subjects st) \<and>
      (sid \<notin> set objectPrototypeKeys \<or> newLectureNames st sid \<noteq> None)"
  then show "handleAddLecture now sid st \<noteq> Inl TypeError"
    using addLecture_absent(1) [of sid st now] by blast
  from a show "subjects (state_after st (handleAddLecture now sid st)) = subjects st"
    using addLecture_absent(2) [of sid st now] by blast
  from a show "error (state_after st (handleAddLecture now sid st)) = error st"
    using addLecture_absent(3) [of sid st now] by blast
next
  assume a: "itemToDelete st = Some item \<and> item_type item = LectureItem \<and>
      item_subjectId item = Some sid \<and>
      (sid \<notin> subject_ids (subjects st) \<or> item_id item \<notin> lecture_ids (subjects st))"
  then show "subjects (handleConfirmDelete st) = subjects st"
    using confirmDelete_absent(1) [of st item sid] by simp
  from a show "error (handleConfirmDelete st) = error st"
    using confirmDelete_absent(2) [of st item sid] by simp
next
  assume "sid \<notin> subject_ids (subjects st) \<or> lid \<notin> lecture_ids (subjects st) \<or>
      qid \<notin> question_ids (subjects st)"
  then show "subjects (handleDeleteQuestion sid lid qid st) = subjects st"
    and "error (handleDeleteQuestion sid lid qid st) = error st"
    by (rule deleteQuestion_absent)+
next
  assume a: "editingQuestionId st = Some qid \<and> qid \<notin> question_ids (subjects st)"
  then show "subjects (handleSaveEdit st) = subjects st"
    using saveEdit_absent(1) [of st qid] by simp
  from a show "error (handleSaveEdit st) = error st"
    using saveEdit_absent(2) [of st qid] by simp
next
  assume "sid \<notin> subject_ids (subjects st) \<or> m \<notin> lecture_ids (subjects st) \<or>
      t \<notin> lecture_ids (subjects st)"
  then show "subjects (handleDrop m sid t st) = subjects st"
    and "error (handleDrop m sid t st) = error st"
    by (rule handleDrop_absent)+
qed


subsection \<open>Names are trimmed\<close>

lemma trim_decomp:
  "\<exists>a b. s = a @ trim s @ b \<and> list_all is_space a \<and> list_all is_space b"
proof -
  let ?r = "dropWhile is_space s"
  have 1: "s = takeWhile is_space s @ ?r" by simp
  have 2: "rev ?r = takeWhile is_space (rev ?r) @ dropWhile is_space (rev ?r)" by simp
  then have "?r = rev (dropWhile is_space (rev ?r)) @ rev (takeWhile is_space (rev ?r))"
    by (metis rev_append rev_rev_ident)
  then have "?r = trim s @ rev (takeWhile is_space (rev ?r))" by (simp add: trim_def)
  with 1 have "s = takeWhile is_space s @ trim s @ rev (takeWhile is_space (rev ?r))" by simp
  moreover have "list_all is_space (takeWhile is_space s)"
    by (simp add: list_all_iff) (meson set_takeWhileD)
  moreover have "list_all is_space (rev (takeWhile is_space (rev ?r)))"
    by (simp add: list_all_iff) (meson set_takeWhileD)
  ultimately show ?thesis by blast
qed

lemma trim_ends:
  "trim s \<noteq> [] \<Longrightarrow> \<not> is_space (hd (trim s)) \<and> \<not> is_space (last (trim s))"
proof -
  assume ne: "trim s \<noteq> []"
  let ?r = "dropWhile is_space s"
  let ?u = "dropWhile is_space (rev ?r)"
  from ne have u: "?u \<noteq> []" by (simp add: trim_def)
  then have l: "\<not> is_space (hd ?u)" by (rule hd_dropWhile)
  then have "\<not> is_space (last (trim s))" using u by (simp add: trim_def last_rev)
  moreover have "\<not> is_space (hd (trim s))"
  proof -
    from u have r: "?r \<noteq> []" by (cases "dropWhile is_space s") auto
    then have h: "\<not> is_space (hd ?r)" by (rule hd_dropWhile)
    obtain b where "?r = trim s @ b"
      by (metis rev_append rev_rev_ident takeWhile_dropWhile_id trim_def)
    with ne have "hd (trim s) = hd ?r" by simp
    with h show ?thesis by simp
  qed
  ultimately show ?thesis by simp
qed

lemma trim_empty_iff: "trim s = [] \<longleftrightarrow> list_all is_space s"
proof -
  let ?r = "dropWhile is_space s"
  have "trim s = [] \<longleftrightarrow> (\<forall>x \<in> set ?r. is_space x)"
    by (simp add: trim_def)
  also have "\<dots> \<longleftrightarrow> ?r = []"
  proof
    assume a: "\<forall>x \<in> set ?r. is_space x"
    show "?r = []"
    proof (rule ccontr)
      assume ne: "?r \<noteq> []"
      then have "\<not> is_space (hd ?r)" by (rule hd_dropWhile)
      moreover from ne have "hd ?r \<in> set ?r" by simp
      ultimately show False using a by blast
    qed
  qed (simp del: dropWhile_eq_Nil_conv)
  also have "\<dots> \<longleftrightarrow> list_all is_space s"
    by (simp add: list_all_iff)
  finally show ?thesis .
qed


text \<open>
  Claim C10. \<^verbatim>\<open>handleAddSubject\<close>, \<^verbatim>\<open>handleAddLecture\<close> and
  \<^verbatim>\<open>handleUpdateSubject\<close> leave the Library unchanged when the trimmed name is empty
  (for a lecture, also when no name was entered for the subject). Otherwise the new subject
  is appended with the trimmed name, the new lecture is appended with the trimmed name to
  the subject with the given id, and the subject being edited gets the trimmed name; all
  other subjects stay as they were. The Library after \<^verbatim>\<open>handleAddLecture\<close> is the one
  of \<open>state_after\<close>: where the handler throws, it is the Library before. By \<open>trim_decomp\<close> and \<open>trim_ends\<close> the trimmed name is
  the input without its leading and trailing white space.
\<close>

theorem stored_names_are_trimmed:
  "(trim (newSubjectName st) = []
      \<longrightarrow> subjects (handleAddSubject now st) = subjects st) \<and>
   (trim (newSubjectName st) \<noteq> []
      \<longrightarrow> subjects (handleAddSubject now st)
            = subjects st @ [last (subjects (handleAddSubject now st))] \<and>
          sub_name (last (subjects (handleAddSubject now st))) = trim (newSubjectName st) \<and>
          sub_lectures (last (subjects (handleAddSubject now st))) = []) \<and>
   (newLectureNames st sid = None \<or> (newLectureNames st sid = Some n \<and> trim n = [])
      \<longrightarrow> subjects (state_after st (handleAddLecture now sid st)) = subjects st) \<and>
   (newLectureNames st sid = Some n \<and> trim n \<noteq> [] \<and> i < length (subjects st)
      \<longrightarrow> length (subjects (state_after st (handleAddLecture now sid st))) = length (subjects st) \<and>
          (if sub_id (subjects st ! i) = sid
           then subjects (state_after st (handleAddLecture now sid st)) ! i
                  = (subjects st ! i)\<lparr>sub_lectures := sub_lectures (subjects st ! i) @
                      [last (sub_lectures (subjects (state_after st (handleAddLecture now sid st)) ! i))]\<rparr> \<and>
                lec_name (last (sub_lectures (subjects (state_after st (handleAddLecture now sid st)) ! i)))
                  = trim n \<and>
                lec_questions (last (sub_lectures (subjects (state_after st (handleAddLecture now sid st)) ! i)))
                  = []
           else subjects (state_after st (handleAddLecture now sid st)) ! i = subjects st ! i)) \<and>
   (editingSubject st = None \<or> trim (managedSubjectName st) = []
      \<longrightarrow> subjects (handleUpdateSubject st) = subjects st) \<and>
   (editingSubject st = Some e \<and> trim (managedSubjectName st) \<noteq> [] \<and> i < length (subjects st)
      \<longrightarrow> length (subjects (handleUpdateSubject st)) = length (subjects st) \<and>
          subjects (handleUpdateSubject st) ! i
            = (if sub_id (subjects st ! i) = sub_id e
               then (subjects st ! i)\<lparr>sub_name := trim (managedSubjectName st)\<rparr>
               else subjects st ! i))"
proof -
  have 1: "trim (newSubjectName st) = []
      \<longrightarrow> subjects (handleAddSubject now st) = subjects st"
    by (simp add: handleAddSubject_def)
  have 2: "trim (newSubjectName st) \<noteq> []
      \<longrightarrow> subjects (handleAddSubject now st)
            = subjects st @ [last (subjects (handleAddSubject now st))] \<and>
          sub_name (last (subjects (handleAddSubject now st))) = trim (newSubjectName st) \<and>
          sub_lectures (last (subjects (handleAddSubject now st))) = []"
    by (simp add: handleAddSubject_def)
  have 3: "newLectureNames st sid = None \<or> (newLectureNames st sid = Some n \<and> trim n = [])
      \<longrightarrow> subjects (state_after st (handleAddLecture now sid st)) = subjects st"
    by (auto simp: handleAddLecture_def state_after_def Let_def)
  have 4: "newLectureNames st sid = Some n \<and> trim n \<noteq> [] \<and> i < length (subjects st)
      \<longrightarrow> length (subjects (state_after st (handleAddLecture now sid st))) = length (subjects st) \<and>
          (if sub_id (subjects st ! i) = sid
           then subjects (state_after st (handleAddLecture now sid st)) ! i
                  = (subjects st ! i)\<lparr>sub_lectures := sub_lectures (subjects st ! i) @
                      [last (sub_lectures (subjects (state_after st (handleAddLecture now sid st)) ! i))]\<rparr> \<and>
                lec_name (last (sub_lectures (subjects (state_after st (handleAddLecture now sid st)) ! i)))
                  = trim n \<and>
                lec_questions (last (sub_lectures (subjects (state_after st (handleAddLecture now sid st)) ! i)))
                  = []
           else subjects (state_after st (handleAddLecture now sid st)) ! i = subjects st ! i)"
    by (simp add: handleAddLecture_def state_after_def Let_def)
  have 5: "editingSubject st = None \<or> trim (managedSubjectName st) = []
      \<longrightarrow> subjects (handleUpdateSubject st) = subjects st"
    by (auto simp: handleUpdateSubject_def split: option.splits)
  have 6: "editingSubject st = Some e \<and> trim (managedSubjectName st) \<noteq> [] \<and>
      i < length (subjects st)
      \<longrightarrow> length (subjects (handleUpdateSubject st)) = length (subjects st) \<and>
          subjects (handleUpdateSubject st) ! i
            = (if sub_id (subjects st ! i) = sub_id e
               then (subjects st ! i)\<lparr>sub_name := trim (managedSubjectName st)\<rparr>
               else subjects st ! i)"
    by (simp add: handleUpdateSubject_def)
  show ?thesis
    by (rule conjI, rule 1, rule conjI, rule 2, rule conjI, rule 3, rule conjI, rule 4,
        rule conjI, rule 5, rule 6)
qed

lemma trim_Maths: "trim (js '' Maths  '') = js ''Maths''"
  by (simp add: trim_def js_def is_space_def)

lemma trim_blank: "trim (js ''   '') = []"
  by (simp add: trim_def js_def is_space_def)

lemma js_Maths_nonempty: "js ''Maths'' \<noteq> []"
  by (simp add: js_def)

theorem stored_names_are_trimmed_witness:
  "subjects (handleAddSubject 5 (app0\<lparr>subjects := lib3, newSubjectName := js ''   ''\<rparr>)) = lib3 \<and>
   sub_name (last (subjects (handleAddSubject 5
      (app0\<lparr>subjects := lib3, newSubjectName := js '' Maths  ''\<rparr>)))) = js ''Maths'' \<and>
   subjects (state_after (app0\<lparr>subjects := lib3, newLectureNames := [js ''s'' \<mapsto> js ''   '']\<rparr>)
     (handleAddLecture 5 (js ''s'')
        (app0\<lparr>subjects := lib3, newLectureNames := [js ''s'' \<mapsto> js ''   '']\<rparr>))) = lib3 \<and>
   lec_name (last (sub_lectures (subjects
      (state_after (app0\<lparr>subjects := lib3, newLectureNames := [js ''s'' \<mapsto> js '' Maths  '']\<rparr>)
        (handleAddLecture 5 (js ''s'')
          (app0\<lparr>subjects := lib3, newLectureNames := [js ''s'' \<mapsto> js '' Maths  '']\<rparr>))) ! 0)))
     = js ''Maths'' \<and>
   subjects (handleUpdateSubject
      (app0\<lparr>subjects := lib3, editingSubject := Some (lib3 ! 0), managedSubjectName := js ''   ''\<rparr>)) = lib3 \<and>
   sub_name (subjects (handleUpdateSubject
      (app0\<lparr>subjects := lib3, editingSubject := Some (lib3 ! 0),
            managedSubjectName := js '' Maths  ''\<rparr>)) ! 0) = js ''Maths''"
proof -
  let ?a1 = "app0\<lparr>subjects := lib3, newSubjectName := js ''   ''\<rparr>"
  let ?a2 = "app0\<lparr>subjects := lib3, newSubjectName := js '' Maths  ''\<rparr>"
  let ?b1 = "app0\<lparr>subjects := lib3, newLectureNames := [js ''s'' \<mapsto> js ''   '']\<rparr>"
  let ?b2 = "app0\<lparr>subjects := lib3, newLectureNames := [js ''s'' \<mapsto> js '' Maths  '']\<rparr>"
  let ?c1 = "app0\<lparr>subjects := lib3, editingSubject := Some (lib3 ! 0),
                  managedSubjectName := js ''   ''\<rparr>"
  let ?c2 = "app0\<lparr>subjects := lib3, editingSubject := Some (lib3 ! 0),
                  managedSubjectName := js '' Maths  ''\<rparr>"
  have len: "0 < length lib3" and sid: "sub_id (lib3 ! 0) = js ''s''"
    by (simp_all add: lib3_def)
  have 1: "subjects (handleAddSubject 5 ?a1) = lib3"
  proof -
    have "trim (newSubjectName ?a1) = []" by (simp add: trim_blank)
    with stored_names_are_trimmed [of ?a1 5] have "subjects (handleAddSubject 5 ?a1) = subjects ?a1"
      by blast
    then show ?thesis by simp
  qed
  have 2: "sub_name (last (subjects (handleAddSubject 5 ?a2))) = js ''Maths''"
  proof -
    have "trim (newSubjectName ?a2) \<noteq> []" by (simp add: trim_Maths js_Maths_nonempty)
    with stored_names_are_trimmed [of ?a2 5]
    have "sub_name (last (subjects (handleAddSubject 5 ?a2))) = trim (newSubjectName ?a2)"
      by blast
    then show ?thesis by (simp add: trim_Maths)
  qed
  have 3: "subjects (state_after ?b1 (handleAddLecture 5 (js ''s'') ?b1)) = lib3"
  proof -
    have "newLectureNames ?b1 (js ''s'') = Some (js ''   '') \<and> trim (js ''   '') = []"
      by (simp add: trim_blank)
    with stored_names_are_trimmed [of ?b1 5 "js ''s''" "js ''   ''"]
    have "subjects (state_after ?b1 (handleAddLecture 5 (js ''s'') ?b1)) = subjects ?b1"
      by blast
    then show ?thesis by simp
  qed
  have 4: "lec_name (last (sub_lectures (subjects (state_after ?b2 (handleAddLecture 5 (js ''s'') ?b2)) ! 0)))
      = js ''Maths''"
  proof -
    have "newLectureNames ?b2 (js ''s'') = Some (js '' Maths  '') \<and>
        trim (js '' Maths  '') \<noteq> [] \<and> 0 < length (subjects ?b2)"
      using len by (simp add: trim_Maths js_Maths_nonempty)
    moreover have "sub_id (subjects ?b2 ! 0) = js ''s''" using sid by simp
    ultimately have "lec_name (last (sub_lectures (subjects (state_after ?b2 (handleAddLecture 5 (js ''s'') ?b2)) ! 0)))
        = trim (js '' Maths  '')"
      using stored_names_are_trimmed [of ?b2 5 "js ''s''" "js '' Maths  ''" 0] by presburger
    then show ?thesis by (simp add: trim_Maths)
  qed
  have 5: "subjects (handleUpdateSubject ?c1) = lib3"
  proof -
    have "trim (managedSubjectName ?c1) = []" by (simp add: trim_blank)
    with stored_names_are_trimmed [of ?c1] have "subjects (handleUpdateSubject ?c1) = subjects ?c1"
      by blast
    then show ?thesis by simp
  qed
  have 6: "sub_name (subjects (handleUpdateSubject ?c2) ! 0) = js ''Maths''"
  proof -
    have "editingSubject ?c2 = Some (lib3 ! 0) \<and> trim (managedSubjectName ?c2) \<noteq> [] \<and>
        0 < length (subjects ?c2)"
      using len by (simp add: trim_Maths js_Maths_nonempty)
    with stored_names_are_trimmed [of ?c2 _ _ _ 0 "lib3 ! 0"]
    have "subjects (handleUpdateSubject ?c2) ! 0
        = (if sub_id (subjects ?c2 ! 0) = sub_id (lib3 ! 0)
           then (subjects ?c2 ! 0)\<lparr>sub_name := trim (managedSubjectName ?c2)\<rparr>
           else subjects ?c2 ! 0)"
      by blast
    then show ?thesis by (simp add: trim_Maths)
  qed
  from 1 2 3 4 5 6 show ?thesis by blast
qed

subsection \<open>Option labels\<close>

lemma length_mapi: "length (mapi f xs) = length xs"
  by (simp add: mapi_def)

lemma nth_mapi: "i < length xs \<Longrightarrow> mapi f xs ! i = f i (xs ! i)"
  by (simp add: mapi_def nth_enumerate_eq)










subsection \<open>Responses of the extraction service\<close>

lemma truthy_failedResult: "truthy (er_error (failedResult urls i))"
  by (simp add: failedResult_def truthy_def js_def)

lemma questions_failedResult: "er_questions (failedResult urls i) = []"
  by (simp add: failedResult_def)

lemma those_None_iff: "those xs = None \<longleftrightarrow> None \<in> set xs"
  by (induction xs) (auto split: option.splits)

lemma those_map_Some: "those (map Some xs) = Some xs"
  by (induction xs) auto

lemma analyzeImage_array:
  "analyzeImage now urls i (Parsed (JsonArray (map Some qs)))
     = \<lparr>er_imageUrl = nth_opt urls i,
        er_questions = List.map_filter id (mapi (toQuestion now i) qs), er_error = None\<rparr>"
  by (simp add: analyzeImage_def those_map_Some)

lemma analyzeImage_null:
  "None \<in> set qs \<Longrightarrow> analyzeImage now urls i (Parsed (JsonArray qs)) = failedResult urls i"
  by (simp add: analyzeImage_def those_None_iff [symmetric])

lemma results_analyzeImages:
  "images st \<noteq> [] \<Longrightarrow> extractionResults (analyzeImages now service st)
     = mapi (\<lambda>index file. analyzeImage now (imageUrls st) index (service index)) (images st)"
  by (simp add: analyzeImages_def)

lemma nth_results_analyzeImages:
  "j < length (images st) \<Longrightarrow> extractionResults (analyzeImages now service st) ! j
     = analyzeImage now (imageUrls st) j (service j)"
  by (subst results_analyzeImages) (auto simp: nth_mapi)

lemma length_results_analyzeImages:
  "j < length (images st) \<Longrightarrow>
     length (extractionResults (analyzeImages now service st)) = length (images st)"
  by (subst results_analyzeImages) (auto simp: length_mapi)

lemma nth_results_v1:
  "j < length (images st) \<Longrightarrow> results_v1 now service st ! j
     = analyzeImage_v1 now (imageUrls st) j (service j)"
  by (simp add: results_v1_def nth_mapi)

lemma length_results_v1: "length (results_v1 now service st) = length (images st)"
  by (simp add: results_v1_def length_mapi)

lemma failedResult_fields:
  "er_questions (failedResult urls i) = []"
  "er_error (failedResult urls i)
     = Some (js ''Failed to extract questions from image '' @ show_nat (i + 1)
             @ js ''. Please try again.'')"
  "er_imageUrl (failedResult urls i) = nth_opt urls i"
  by (simp_all add: failedResult_def)

text \<open>
  Claim C7, as amended. Of a batch, let the response to image \<open>j\<close> be no JSON array.
  If it parses as JSON, the result for the image has no questions and no error. If it does
  not parse, the result has no questions and the error message of the image. In both
  revisions the callback returns this result: nothing is raised.
\<close>

theorem non_array_response_outcomes:
  assumes "j < length (images st)"
  shows
    "length (extractionResults (analyzeImages now service st)) = length (images st) \<and>
     length (results_v1 now service st) = length (images st) \<and>
     (service j = Parsed JsonOther
        \<longrightarrow> er_questions (extractionResults (analyzeImages now service st) ! j) = [] \<and>
            er_error (extractionResults (analyzeImages now service st) ! j) = None \<and>
            results_v1 now service st ! j
              = Some (extractionResults (analyzeImages now service st) ! j)) \<and>
     (service j = Unparseable
        \<longrightarrow> er_questions (extractionResults (analyzeImages now service st) ! j) = [] \<and>
            er_error (extractionResults (analyzeImages now service st) ! j)
              = Some (js ''Failed to extract questions from image '' @ show_nat (j + 1)
                      @ js ''. Please try again.'') \<and>
            results_v1 now service st ! j
              = Some (extractionResults (analyzeImages now service st) ! j))"
proof -
  note n = nth_results_analyzeImages [OF assms, of now service]
  note n1 = nth_results_v1 [OF assms, of now service]
  have 1: "length (extractionResults (analyzeImages now service st)) = length (images st)"
    using assms by (rule length_results_analyzeImages)
  have 2: "length (results_v1 now service st) = length (images st)"
    by (rule length_results_v1)
  have 3: "service j = Parsed JsonOther
        \<longrightarrow> er_questions (extractionResults (analyzeImages now service st) ! j) = [] \<and>
            er_error (extractionResults (analyzeImages now service st) ! j) = None \<and>
            results_v1 now service st ! j
              = Some (extractionResults (analyzeImages now service st) ! j)"
    unfolding n n1 by (simp add: analyzeImage_def analyzeImage_v1_def)
  have 4: "service j = Unparseable
        \<longrightarrow> er_questions (extractionResults (analyzeImages now service st) ! j) = [] \<and>
            er_error (extractionResults (analyzeImages now service st) ! j)
              = Some (js ''Failed to extract questions from image '' @ show_nat (j + 1)
                      @ js ''. Please try again.'') \<and>
            results_v1 now service st ! j
              = Some (extractionResults (analyzeImages now service st) ! j)"
    unfolding n n1 by (simp add: analyzeImage_def analyzeImage_v1_def failedResult_fields)
  from 1 2 3 4 show ?thesis by blast
qed

text \<open>
  Claim C7 as stated fails in both revisions for a response whose text is not JSON: the
  exception of \<^verbatim>\<open>JSON.parse\<close> reaches the \<^verbatim>\<open>catch\<close> block, and the result reports an
  error. It also fails for arrays whose elements do not fit the schema. In the later
  revision the element \<^verbatim>\<open>{"type": "mcq"}\<close>, which has no question text, becomes a question;
  in the earlier one an element without options makes the image report an error.
\<close>

theorem unparseable_response_counterexample:
  "er_error (analyzeImage (\<lambda>i k. 0) [js ''blob:0''] 0 Unparseable)
     = Some (js ''Failed to extract questions from image 1. Please try again.'') \<and>
   analyzeImage_v1 (\<lambda>i k. 0) [js ''blob:0''] 0 Unparseable
     = Some (analyzeImage (\<lambda>i k. 0) [js ''blob:0''] 0 Unparseable) \<and>
   er_questions (analyzeImage (\<lambda>i k. 0) [js ''blob:0''] 0
       (Parsed (JsonArray [Some \<lparr>raw_type = Some (js ''mcq''), raw_question = None,
                                  raw_options = None, raw_answer = None\<rparr>])))
     = [MCQ (js ''ext-0-0-0'') [] [] None] \<and>
   map_option er_error (analyzeImage_v1 (\<lambda>i k. 0) [js ''blob:0''] 0
       (Parsed (JsonArray [Some \<lparr>raw_type = None, raw_question = Some (js ''Q''),
                                  raw_options = None, raw_answer = None\<rparr>])))
     = Some (Some (js ''Failed to extract questions from image 1. Please try again.''))"
  by (simp add: analyzeImage_def analyzeImage_v1_def failedResult_def toQuestion_def
      toQuestion_v1_def mapi_def List.map_filter_def orEmpty_def extId_def js_def
      show_nat.simps)

theorem non_array_response_outcomes_witness:
  "er_questions (extractionResults (analyzeImages (\<lambda>i k. 0) service_bad batch3) ! 0) = [] \<and>
   er_error (extractionResults (analyzeImages (\<lambda>i k. 0) service_bad batch3) ! 0) = None \<and>
   results_v1 (\<lambda>i k. 0) service_bad batch3 ! 0
     = Some (extractionResults (analyzeImages (\<lambda>i k. 0) service_bad batch3) ! 0) \<and>
   er_questions (extractionResults (analyzeImages (\<lambda>i k. 0) service_bad batch3) ! 1) = [] \<and>
   er_error (extractionResults (analyzeImages (\<lambda>i k. 0) service_bad batch3) ! 1)
     = Some (js ''Failed to extract questions from image 2. Please try again.'') \<and>
   results_v1 (\<lambda>i k. 0) service_bad batch3 ! 1
     = Some (extractionResults (analyzeImages (\<lambda>i k. 0) service_bad batch3) ! 1)"
proof -
  have h0: "0 < length (images batch3)" and h1: "1 < length (images batch3)"
    by (simp_all add: batch3_def)
  have s0: "service_bad 0 = Parsed JsonOther" and s1: "service_bad 1 = Unparseable"
    by (simp_all add: service_bad_def)
  have m: "js ''Failed to extract questions from image '' @ show_nat (1 + 1)
      @ js ''. Please try again.'' = js ''Failed to extract questions from image 2. Please try again.''"
    by (simp add: js_def show_nat.simps)
  from non_array_response_outcomes [OF h0, of "\<lambda>i k. 0" service_bad] s0
  have a: "er_questions (extractionResults (analyzeImages (\<lambda>i k. 0) service_bad batch3) ! 0) = [] \<and>
      er_error (extractionResults (analyzeImages (\<lambda>i k. 0) service_bad batch3) ! 0) = None \<and>
      results_v1 (\<lambda>i k. 0) service_bad batch3 ! 0
        = Some (extractionResults (analyzeImages (\<lambda>i k. 0) service_bad batch3) ! 0)"
    by blast
  from non_array_response_outcomes [OF h1, of "\<lambda>i k. 0" service_bad] s1
  have b: "er_questions (extractionResults (analyzeImages (\<lambda>i k. 0) service_bad batch3) ! 1) = [] \<and>
      er_error (extractionResults (analyzeImages (\<lambda>i k. 0) service_bad batch3) ! 1)
        = Some (js ''Failed to extract questions from image '' @ show_nat (1 + 1)
                @ js ''. Please try again.'') \<and>
      results_v1 (\<lambda>i k. 0) service_bad batch3 ! 1
        = Some (extractionResults (analyzeImages (\<lambda>i k. 0) service_bad batch3) ! 1)"
    by blast
  from a b show ?thesis unfolding m by blast
qed

subsection \<open>A batch with a failed image\<close>

lemma map_filter_map_Some: "List.map_filter id (map Some xs) = xs"
  by (simp add: List.map_filter_def comp_def)

lemma map_filter_made: "List.map_filter made (map Made xs) = xs"
  by (simp add: List.map_filter_def comp_def made_def)

lemma mapi_mcq_later:
  "mapi (toQuestion now j) (map (\<lambda>(t, os). mcqElement t os) elems)
     = map Some (mapi (\<lambda>qIndex (t, os).
         MCQ (extId (now j qIndex) j qIndex) t (map stripLabel os) None) elems)"
  by (rule nth_equalityI)
     (auto simp: length_mapi nth_mapi toQuestion_def mcqElement_def orEmpty_def comp_def
       split: prod.splits)

lemma mapi_mcq_earlier:
  "mapi (toQuestion_v1 now j) (map (\<lambda>(t, os). Some (mcqElement t os)) elems)
     = map Made (mapi (\<lambda>qIndex (t, os).
         MCQ (extId (now j qIndex) j qIndex) t (map stripLabel os) None) elems)"
  by (rule nth_equalityI)
     (auto simp: length_mapi nth_mapi toQuestion_v1_def mcqElement_def those_map_Some
       split: prod.splits)

lemma analyzeImage_mcq:
  "analyzeImage now urls j (Parsed (JsonArray (map (\<lambda>(t, os). Some (mcqElement t os)) elems)))
     = \<lparr>er_imageUrl = nth_opt urls j,
        er_questions = mapi (\<lambda>qIndex (t, os).
          MCQ (extId (now j qIndex) j qIndex) t (map stripLabel os) None) elems,
        er_error = None\<rparr>"
proof -
  have e: "map (\<lambda>(t, os). Some (mcqElement t os)) elems
      = map Some (map (\<lambda>(t, os). mcqElement t os) elems)"
    by (simp add: comp_def split_def)
  show ?thesis
    unfolding e analyzeImage_array mapi_mcq_later map_filter_map_Some ..
qed

lemma analyzeImage_v1_mcq:
  "analyzeImage_v1 now urls j (Parsed (JsonArray (map (\<lambda>(t, os). Some (mcqElement t os)) elems)))
     = Some (analyzeImage now urls j
         (Parsed (JsonArray (map (\<lambda>(t, os). Some (mcqElement t os)) elems))))"
  unfolding analyzeImage_mcq
  by (auto simp: analyzeImage_v1_def mapi_mcq_earlier map_filter_made Let_def)

text \<open>
  Claim C5. Of a batch, let the request for image \<open>k\<close> be rejected, the images having
  their object URLs. In both revisions the batch yields one result per image. The result
  at position \<open>k\<close> has no questions and the error message of image \<open>k\<close>. The result at
  every position \<open>j\<close> refers to the URL of image \<open>j\<close> and is computed from the response
  to image \<open>j\<close> alone: it is the same in any other run in which image \<open>j\<close> gets the same
  response. Where that response is an array of multiple-choice questions, the result at
  \<open>j\<close> carries exactly these questions, in order, with their labels stripped and ids made
  from the position of the image and of the question, and no error.
\<close>

theorem failed_image_keeps_position:
  assumes "k < length (images st)" and "service k = Rejected"
    and "length (imageUrls st) = length (images st)"
  shows
    "length (extractionResults (analyzeImages now service st)) = length (images st) \<and>
     length (results_v1 now service st) = length (images st) \<and>
     er_questions (extractionResults (analyzeImages now service st) ! k) = [] \<and>
     er_error (extractionResults (analyzeImages now service st) ! k)
       = Some (js ''Failed to extract questions from image '' @ show_nat (k + 1)
               @ js ''. Please try again.'') \<and>
     results_v1 now service st ! k = Some (extractionResults (analyzeImages now service st) ! k) \<and>
     (j < length (images st)
        \<longrightarrow> er_imageUrl (extractionResults (analyzeImages now service st) ! j)
              = Some (imageUrls st ! j)) \<and>
     (j < length (images st) \<and> results_v1 now service st ! j = Some r
        \<longrightarrow> er_imageUrl r = Some (imageUrls st ! j)) \<and>
     (j < length (images st) \<and> service' j = service j
        \<longrightarrow> extractionResults (analyzeImages now service' st) ! j
              = extractionResults (analyzeImages now service st) ! j \<and>
            results_v1 now service' st ! j = results_v1 now service st ! j) \<and>
     (j < length (images st) \<and>
      service j = Parsed (JsonArray (map (\<lambda>(t, os). Some (mcqElement t os)) elems))
        \<longrightarrow> extractionResults (analyzeImages now service st) ! j
              = \<lparr>er_imageUrl = Some (imageUrls st ! j),
                 er_questions = mapi (\<lambda>qIndex (t, os).
                   MCQ (extId (now j qIndex) j qIndex) t (map stripLabel os) None) elems,
                 er_error = None\<rparr> \<and>
            results_v1 now service st ! j
              = Some (extractionResults (analyzeImages now service st) ! j))"
proof -
  let ?rs = "extractionResults (analyzeImages now service st)"
  let ?rs1 = "results_v1 now service st"
  note n = nth_results_analyzeImages
  note n1 = nth_results_v1
  have url: "nth_opt (imageUrls st) i = Some (imageUrls st ! i)" if "i < length (images st)" for i
    using that assms(3) by (simp add: nth_opt_def)
  have 1: "length ?rs = length (images st)"
    using assms(1) by (rule length_results_analyzeImages)
  have 2: "length ?rs1 = length (images st)" by (rule length_results_v1)
  have k: "?rs ! k = failedResult (imageUrls st) k"
    using assms(1,2) by (simp add: n analyzeImage_def)
  have k1: "?rs1 ! k = Some (failedResult (imageUrls st) k)"
    using assms(1,2) by (simp add: n1 analyzeImage_v1_def)
  have 3: "er_questions (?rs ! k) = []" unfolding k by (rule failedResult_fields)
  have 4: "er_error (?rs ! k) = Some (js ''Failed to extract questions from image ''
      @ show_nat (k + 1) @ js ''. Please try again.'')"
    unfolding k by (rule failedResult_fields)
  have 5: "?rs1 ! k = Some (?rs ! k)" unfolding k k1 by simp
  have 6: "j < length (images st) \<longrightarrow> er_imageUrl (?rs ! j) = Some (imageUrls st ! j)"
    by (auto simp: n url analyzeImage_def failedResult_fields
        split: Response.splits ParsedJson.splits option.splits)
  have 7: "j < length (images st) \<and> ?rs1 ! j = Some r
        \<longrightarrow> er_imageUrl r = Some (imageUrls st ! j)"
    by (auto simp: n1 url analyzeImage_v1_def failedResult_fields Let_def
        split: Response.splits ParsedJson.splits if_splits)
  have 8: "j < length (images st) \<and> service' j = service j
        \<longrightarrow> extractionResults (analyzeImages now service' st) ! j = ?rs ! j \<and>
            results_v1 now service' st ! j = ?rs1 ! j"
    by (simp add: n n1)
  have 9: "j < length (images st) \<and>
      service j = Parsed (JsonArray (map (\<lambda>(t, os). Some (mcqElement t os)) elems))
        \<longrightarrow> ?rs ! j
              = \<lparr>er_imageUrl = Some (imageUrls st ! j),
                 er_questions = mapi (\<lambda>qIndex (t, os).
                   MCQ (extId (now j qIndex) j qIndex) t (map stripLabel os) None) elems,
                 er_error = None\<rparr> \<and>
            ?rs1 ! j = Some (?rs ! j)"
    by (simp add: n n1 analyzeImage_v1_mcq) (simp add: analyzeImage_mcq url)
  from 1 2 3 4 5 6 7 8 9 show ?thesis by blast
qed

lemma service3_responses:
  "service3 1 = Rejected"
  "service3 0 = Parsed (JsonArray (map (\<lambda>(t, os). Some (mcqElement t os))
                  [(js ''Q0'', [js ''A) x'', js ''B) y''])]))"
  "service3 2 = Parsed (JsonArray (map (\<lambda>(t, os). Some (mcqElement t os))
                  [(js ''Q2'', [js ''1. z''])]))"
  by (simp_all add: service3_def)

lemma stripped_samples:
  "stripLabel (js ''A) x'') = js ''x''" "stripLabel (js ''B) y'') = js ''y''"
  "stripLabel (js ''1. z'') = js ''z''"
  by (simp_all add: stripLabel_def marker_rest_def js_def is_space_def is_alnum_def trim_def)

lemma extId_samples: "extId 0 0 0 = js ''ext-0-0-0''" "extId 0 2 0 = js ''ext-0-2-0''"
  by (simp_all add: extId_def js_def show_nat.simps)

theorem failed_image_keeps_position_witness:
  "length (extractionResults (analyzeImages (\<lambda>i k. 0) service3 batch3)) = 3 \<and>
   extractionResults (analyzeImages (\<lambda>i k. 0) service3 batch3) ! 1
     = \<lparr>er_imageUrl = Some (js ''blob:b''), er_questions = [],
        er_error = Some (js ''Failed to extract questions from image 2. Please try again.'')\<rparr> \<and>
   extractionResults (analyzeImages (\<lambda>i k. 0) service3 batch3) ! 0
     = \<lparr>er_imageUrl = Some (js ''blob:a''),
        er_questions = [MCQ (js ''ext-0-0-0'') (js ''Q0'') [js ''x'', js ''y''] None],
        er_error = None\<rparr> \<and>
   extractionResults (analyzeImages (\<lambda>i k. 0) service3 batch3) ! 2
     = \<lparr>er_imageUrl = Some (js ''blob:c''),
        er_questions = [MCQ (js ''ext-0-2-0'') (js ''Q2'') [js ''z''] None],
        er_error = None\<rparr> \<and>
   results_v1 (\<lambda>i k. 0) service3 batch3
     = map Some (extractionResults (analyzeImages (\<lambda>i k. 0) service3 batch3))"
proof -
  let ?rs = "extractionResults (analyzeImages (\<lambda>i k. 0) service3 batch3)"
  let ?rs1 = "results_v1 (\<lambda>i k. 0) service3 batch3"
  have h: "1 < length (images batch3)" "service3 1 = Rejected"
    "length (imageUrls batch3) = length (images batch3)"
    by (simp_all add: batch3_def service3_def)
  have l: "length (images batch3) = 3"
    and u: "imageUrls batch3 ! 0 = js ''blob:a''" "imageUrls batch3 ! 1 = js ''blob:b''"
      "imageUrls batch3 ! 2 = js ''blob:c''"
    by (simp_all add: batch3_def)
  have m: "js ''Failed to extract questions from image '' @ show_nat (1 + 1)
      @ js ''. Please try again.'' = js ''Failed to extract questions from image 2. Please try again.''"
    by (simp add: js_def show_nat.simps)
  have j: "0 < length (images batch3)" "2 < length (images batch3)"
    by (simp_all add: batch3_def)
  note t0 = failed_image_keeps_position [where k = 1 and st = batch3 and service = service3
      and now = "\<lambda>i k. 0" and j = 0 and elems = "[(js ''Q0'', [js ''A) x'', js ''B) y''])]"
      and r = "failedResult [] 0" and service' = service3, OF h]
  note t1 = failed_image_keeps_position [where k = 1 and st = batch3 and service = service3
      and now = "\<lambda>i k. 0" and j = 1 and elems = "[]"
      and r = "failedResult [] 0" and service' = service3, OF h]
  note t2 = failed_image_keeps_position [where k = 1 and st = batch3 and service = service3
      and now = "\<lambda>i k. 0" and j = 2 and elems = "[(js ''Q2'', [js ''1. z''])]"
      and r = "failedResult [] 0" and service' = service3, OF h]
  from t0 have a: "length ?rs = 3" and a1: "length ?rs1 = 3" unfolding l by blast+
  from t1 h(1) have "er_questions (?rs ! 1) = []"
    and "er_error (?rs ! 1) = Some (js ''Failed to extract questions from image '' @ show_nat (1 + 1)
               @ js ''. Please try again.'')"
    and "er_imageUrl (?rs ! 1) = Some (imageUrls batch3 ! 1)" and b1: "?rs1 ! 1 = Some (?rs ! 1)"
    by blast+
  then have b: "?rs ! 1 = \<lparr>er_imageUrl = Some (js ''blob:b''), er_questions = [],
        er_error = Some (js ''Failed to extract questions from image 2. Please try again.'')\<rparr>"
    unfolding m u by (cases "?rs ! 1") simp
  from t0 service3_responses(2) j(1) have "?rs ! 0 = \<lparr>er_imageUrl = Some (imageUrls batch3 ! 0),
        er_questions = mapi (\<lambda>qIndex (t, os).
          MCQ (extId ((\<lambda>i k. 0) 0 qIndex) 0 qIndex) t (map stripLabel os) None)
            [(js ''Q0'', [js ''A) x'', js ''B) y''])],
        er_error = None\<rparr>" and c1: "?rs1 ! 0 = Some (?rs ! 0)"
    by blast+
  then have c: "?rs ! 0 = \<lparr>er_imageUrl = Some (js ''blob:a''),
        er_questions = [MCQ (js ''ext-0-0-0'') (js ''Q0'') [js ''x'', js ''y''] None],
        er_error = None\<rparr>"
    by (simp add: u mapi_def stripped_samples extId_samples)
  from t2 service3_responses(3) j(2) have "?rs ! 2 = \<lparr>er_imageUrl = Some (imageUrls batch3 ! 2),
        er_questions = mapi (\<lambda>qIndex (t, os).
          MCQ (extId ((\<lambda>i k. 0) 2 qIndex) 2 qIndex) t (map stripLabel os) None)
            [(js ''Q2'', [js ''1. z''])],
        er_error = None\<rparr>" and d1: "?rs1 ! 2 = Some (?rs ! 2)"
    by blast+
  then have d: "?rs ! 2 = \<lparr>er_imageUrl = Some (js ''blob:c''),
        er_questions = [MCQ (js ''ext-0-2-0'') (js ''Q2'') [js ''z''] None],
        er_error = None\<rparr>"
    by (simp add: u mapi_def stripped_samples extId_samples)
  have e: "?rs1 = map Some ?rs"
  proof (rule nth_equalityI)
    show "length ?rs1 = length (map Some ?rs)" using a a1 by simp
    fix i assume "i < length ?rs1"
    then have "i = 0 \<or> i = 1 \<or> i = 2" using a1 by auto
    then show "?rs1 ! i = map Some ?rs ! i" using a b1 c1 d1 by auto
  qed
  from a b c d e show ?thesis by blast
qed

subsection \<open>Committing staged questions\<close>

lemma with_id_erase: "with_id [] (with_id i q) = with_id [] q"
  by (cases q) auto

lemma q_id_with_id: "q_id (with_id i q) = i"
  by (cases q) auto

lemma added_content:
  "map (with_id []) (mapi (\<lambda>k q. with_id (f k) q) qs) = map (with_id []) qs"
  by (rule nth_equalityI) (simp_all add: length_mapi nth_mapi with_id_erase)

lemma added_ids:
  "k < length qs \<Longrightarrow> q_id (mapi (\<lambda>k q. with_id (f k) q) qs ! k) = f k"
  by (simp add: nth_mapi q_id_with_id)

lemma analyzeImage_error_truthy:
  "er_error (analyzeImage now urls i r) = None \<or> truthy (er_error (analyzeImage now urls i r))"
  by (auto simp: analyzeImage_def truthy_failedResult split: Response.splits ParsedJson.splits option.splits)

lemma set_mapi: "x \<in> set (mapi f xs) \<Longrightarrow> \<exists>i < length xs. x = f i (xs ! i)"
  by (metis in_set_conv_nth length_mapi nth_mapi)

lemma analyzeImages_errors_truthy:
  assumes "images st \<noteq> []"
  shows "list_all (\<lambda>r. er_error r = None \<or> truthy (er_error r))
           (extractionResults (analyzeImages now service st))"
  unfolding list_all_iff results_analyzeImages [OF assms]
  using analyzeImage_error_truthy by (auto dest!: set_mapi)

lemma commit_results:
  assumes "selectedSubjectId st \<noteq> []" "selectedLectureId st \<noteq> []" "questionsToAdd st \<noteq> []"
  shows "extractionResults (handleAddQuestionsToLecture now random st)
     = filter (\<lambda>result. er_questions result \<noteq> [] \<or> truthy (er_error result))
         (map (\<lambda>result. result\<lparr>er_questions :=
                 filter (\<lambda>q. q_id q \<notin> selectedStagedIds st) (er_questions result)\<rparr>)
            (extractionResults st))"
  using assms by (simp add: handleAddQuestionsToLecture_def)

lemma concat_filter_nonempty:
  "concat (map f (filter (\<lambda>r. f r \<noteq> [] \<or> P r) rs)) = concat (map f rs)"
  by (induction rs) auto

lemma commit_remaining:
  "concat (map er_questions
     (filter (\<lambda>result. er_questions result \<noteq> [] \<or> truthy (er_error result))
         (map (\<lambda>result. result\<lparr>er_questions := filter P (er_questions result)\<rparr>) rs)))
   = filter P (concat (map er_questions rs))"
proof -
  have "concat (map er_questions
     (filter (\<lambda>result. er_questions result \<noteq> [] \<or> truthy (er_error result))
         (map (\<lambda>result. result\<lparr>er_questions := filter P (er_questions result)\<rparr>) rs)))
    = concat (map er_questions
         (map (\<lambda>result. result\<lparr>er_questions := filter P (er_questions result)\<rparr>) rs))"
    by (rule concat_filter_nonempty)
  also have "\<dots> = filter P (concat (map er_questions rs))"
    by (simp add: filter_concat comp_def)
  finally show ?thesis .
qed

lemma commit_errors_retained:
  assumes "list_all (\<lambda>r. er_error r = None \<or> truthy (er_error r)) rs"
  shows "filter (\<lambda>r. er_error r \<noteq> None)
     (filter (\<lambda>result. er_questions result \<noteq> [] \<or> truthy (er_error result))
         (map (\<lambda>result. result\<lparr>er_questions := filter P (er_questions result)\<rparr>) rs))
   = map (\<lambda>result. result\<lparr>er_questions := filter P (er_questions result)\<rparr>)
       (filter (\<lambda>r. er_error r \<noteq> None) rs)"
  using assms by (induction rs) auto


lemma commit_subjects:
  assumes "selectedSubjectId st \<noteq> []" "selectedLectureId st \<noteq> []" "questionsToAdd st \<noteq> []"
  shows "subjects (handleAddQuestionsToLecture now random st)
     = mapi (\<lambda>si subject.
               if sub_id subject \<noteq> selectedSubjectId st then subject
               else subject\<lparr>sub_lectures :=
                 mapi (\<lambda>li lecture.
                   if lec_id lecture \<noteq> selectedLectureId st then lecture
                   else lecture\<lparr>lec_questions := lec_questions lecture @
                          mapi (\<lambda>k q. with_id (libId (now si li k) (random si li k)) q)
                            (questionsToAdd st)\<rparr>)
                 (sub_lectures subject)\<rparr>)
             (subjects st)"
  using assms by (simp add: handleAddQuestionsToLecture_def)

lemma commit_keeps_errors_truthy:
  assumes "list_all (\<lambda>r. er_error r = None \<or> truthy (er_error r)) (extractionResults st)"
  shows "list_all (\<lambda>r. er_error r = None \<or> truthy (er_error r))
           (extractionResults (handleAddQuestionsToLecture now random st))"
  using assms by (auto simp: handleAddQuestionsToLecture_def list_all_iff)

lemma show_nat_digits: "d \<in> set (show_nat n) \<Longrightarrow> 48 \<le> d \<and> d \<le> 57"
proof (induction n arbitrary: d rule: show_nat.induct)
  case (1 n)
  show ?case
  proof (cases "n < 10")
    case True
    with "1.prems" show ?thesis by (simp add: show_nat.simps [of n])
  next
    case False
    with "1.prems" have "d \<in> set (show_nat (n div 10)) \<or> d = 48 + n mod 10"
      by (auto simp: show_nat.simps [of n])
    with "1.IH" [OF False] show ?thesis by auto
  qed
qed

lemma show_nat_value: "foldl (\<lambda>acc d. 10 * acc + (d - 48)) 0 (show_nat n) = n"
proof (induction n rule: show_nat.induct)
  case (1 n)
  show ?case
  proof (cases "n < 10")
    case True
    then show ?thesis by (simp add: show_nat.simps [of n])
  next
    case False
    with "1.IH" show ?thesis by (simp add: show_nat.simps [of n])
  qed
qed

lemma show_nat_inj:
  assumes "show_nat n = show_nat m"
  shows "n = m"
proof -
  have "n = foldl (\<lambda>acc d. 10 * acc + (d - 48)) 0 (show_nat n)"
    by (simp only: show_nat_value)
  also have "\<dots> = foldl (\<lambda>acc d. 10 * acc + (d - 48)) 0 (show_nat m)"
    by (simp only: assms)
  also have "\<dots> = m" by (simp only: show_nat_value)
  finally show ?thesis .
qed

lemma takeWhile_separator: "a \<notin> set xs \<Longrightarrow> takeWhile (\<lambda>x. x \<noteq> a) (xs @ a # r) = xs"
  by (induction xs) auto

lemma split_at_separator:
  assumes "xs @ a # r = ys @ a # r'" and "a \<notin> set xs" and "a \<notin> set ys"
  shows "xs = ys \<and> r = r'"
proof -
  have "takeWhile (\<lambda>x. x \<noteq> a) (xs @ a # r) = xs" "takeWhile (\<lambda>x. x \<noteq> a) (ys @ a # r') = ys"
    using assms(2,3) by (simp_all add: takeWhile_separator)
  with assms(1) have "xs = ys" by simp
  with assms(1) show ?thesis by simp
qed

lemma libId_inj: "libId n r = libId m r' \<longleftrightarrow> n = m \<and> r = r'"
proof
  assume "libId n r = libId m r'"
  then have "show_nat n @ 45 # r = show_nat m @ 45 # r'"
    by (simp add: libId_def js_def)
  moreover have "45 \<notin> set (show_nat n)" "45 \<notin> set (show_nat m)"
    using show_nat_digits by fastforce+
  ultimately have "show_nat n = show_nat m \<and> r = r'" by (rule split_at_separator)
  then show "n = m \<and> r = r'" using show_nat_inj by blast
qed simp

text \<open>
  Claim C4, as amended. Let a subject and a lecture be chosen that are in the Library, at
  positions \<open>si\<close> and \<open>li\<close>, and let at least one staged question be selected. Then
  \<^verbatim>\<open>handleAddQuestionsToLecture\<close> leaves every subject with another id and every
  lecture of the chosen subject with another id as they are. In the chosen lecture the old
  questions stay in front and the selected questions follow in their staging order,
  unchanged except for the id: the \<open>k\<close>-th of them gets the text \<^verbatim>\<open>lib-\<close>, the clock
  reading, \<^verbatim>\<open>-\<close> and the random text drawn for it. Two of the new ids differ whenever
  the clock readings or the random texts drawn for them differ. The questions left in
  staging are exactly the unselected ones, in order; no result is left that has neither a
  question nor an error; the results that carry an error are all retained, in order; and
  the selection is cleared. The staging results are assumed to be as \<^verbatim>\<open>analyzeImages\<close>
  produces them and this handler keeps them (\<open>analyzeImages_errors_truthy\<close>,
  \<open>commit_keeps_errors_truthy\<close>): an error message, when present, is not empty.
\<close>

theorem commit_appends_selected:
  fixes st now random si li
  defines "st' \<equiv> handleAddQuestionsToLecture now random st"
  defines "old \<equiv> lec_questions (sub_lectures (subjects st ! si) ! li)"
  defines "new \<equiv> lec_questions (sub_lectures (subjects st' ! si) ! li)"
  assumes "selectedSubjectId st \<noteq> []" and "selectedLectureId st \<noteq> []"
    and "questionsToAdd st \<noteq> []"
    and "list_all (\<lambda>r. er_error r = None \<or> truthy (er_error r)) (extractionResults st)"
    and "si < length (subjects st)" and "sub_id (subjects st ! si) = selectedSubjectId st"
    and "li < length (sub_lectures (subjects st ! si))"
    and "lec_id (sub_lectures (subjects st ! si) ! li) = selectedLectureId st"
  shows "length (subjects st') = length (subjects st) \<and>
    (sj < length (subjects st) \<and> sub_id (subjects st ! sj) \<noteq> selectedSubjectId st
       \<longrightarrow> subjects st' ! sj = subjects st ! sj) \<and>
    sub_id (subjects st' ! si) = sub_id (subjects st ! si) \<and>
    sub_name (subjects st' ! si) = sub_name (subjects st ! si) \<and>
    length (sub_lectures (subjects st' ! si)) = length (sub_lectures (subjects st ! si)) \<and>
    (lj < length (sub_lectures (subjects st ! si)) \<and>
     lec_id (sub_lectures (subjects st ! si) ! lj) \<noteq> selectedLectureId st
       \<longrightarrow> sub_lectures (subjects st' ! si) ! lj = sub_lectures (subjects st ! si) ! lj) \<and>
    lec_id (sub_lectures (subjects st' ! si) ! li) = lec_id (sub_lectures (subjects st ! si) ! li) \<and>
    lec_name (sub_lectures (subjects st' ! si) ! li)
      = lec_name (sub_lectures (subjects st ! si) ! li) \<and>
    length new = length old + length (questionsToAdd st) \<and>
    take (length old) new = old \<and>
    (k < length (questionsToAdd st)
       \<longrightarrow> new ! (length old + k)
             = with_id (js ''lib-'' @ show_nat (now si li k) @ js ''-'' @ random si li k)
                 (questionsToAdd st ! k) \<and>
           q_id (new ! (length old + k))
             = js ''lib-'' @ show_nat (now si li k) @ js ''-'' @ random si li k \<and>
           with_id [] (new ! (length old + k)) = with_id [] (questionsToAdd st ! k)) \<and>
    (k < length (questionsToAdd st) \<and> k' < length (questionsToAdd st) \<and>
     (now si li k \<noteq> now si li k' \<or> random si li k \<noteq> random si li k')
       \<longrightarrow> q_id (new ! (length old + k)) \<noteq> q_id (new ! (length old + k'))) \<and>
    concat (map er_questions (extractionResults st'))
      = filter (\<lambda>q. q_id q \<notin> selectedStagedIds st)
          (concat (map er_questions (extractionResults st))) \<and>
    list_all (\<lambda>r. er_questions r \<noteq> [] \<or> er_error r \<noteq> None) (extractionResults st') \<and>
    filter (\<lambda>r. er_error r \<noteq> None) (extractionResults st')
      = map (\<lambda>r. r\<lparr>er_questions := filter (\<lambda>q. q_id q \<notin> selectedStagedIds st) (er_questions r)\<rparr>)
          (filter (\<lambda>r. er_error r \<noteq> None) (extractionResults st)) \<and>
    selectedStagedIds st' = {}"
proof -
  note S = commit_subjects [OF assms(4,5,6), of now random, folded st'_def]
  note R = commit_results [OF assms(4,5,6), of now random, folded st'_def]
  note pos = assms(8,9,10,11)
  have new: "new = old @ mapi (\<lambda>k q. with_id (libId (now si li k) (random si li k)) q)
      (questionsToAdd st)"
    using pos by (simp add: new_def old_def S nth_mapi)
  have id: "libId n r = js ''lib-'' @ show_nat n @ js ''-'' @ r" for n r
    by (simp add: libId_def)
  have 1: "length (subjects st') = length (subjects st)"
    by (simp add: S length_mapi)
  have 2: "sj < length (subjects st) \<and> sub_id (subjects st ! sj) \<noteq> selectedSubjectId st
       \<longrightarrow> subjects st' ! sj = subjects st ! sj"
    by (simp add: S nth_mapi)
  have 3: "sub_id (subjects st' ! si) = sub_id (subjects st ! si)"
    "sub_name (subjects st' ! si) = sub_name (subjects st ! si)"
    "length (sub_lectures (subjects st' ! si)) = length (sub_lectures (subjects st ! si))"
    using pos by (simp_all add: S nth_mapi length_mapi)
  have 4: "lj < length (sub_lectures (subjects st ! si)) \<and>
     lec_id (sub_lectures (subjects st ! si) ! lj) \<noteq> selectedLectureId st
       \<longrightarrow> sub_lectures (subjects st' ! si) ! lj = sub_lectures (subjects st ! si) ! lj"
    using pos by (simp add: S nth_mapi)
  have 5: "lec_id (sub_lectures (subjects st' ! si) ! li)
      = lec_id (sub_lectures (subjects st ! si) ! li)"
    "lec_name (sub_lectures (subjects st' ! si) ! li)
      = lec_name (sub_lectures (subjects st ! si) ! li)"
    using pos by (simp_all add: S nth_mapi)
  have 6: "length new = length old + length (questionsToAdd st)" "take (length old) new = old"
    by (simp_all add: new length_mapi)
  have n: "new ! (length old + k)
      = with_id (libId (now si li k) (random si li k)) (questionsToAdd st ! k)"
    if "k < length (questionsToAdd st)" for k
    using that by (simp add: new nth_append nth_mapi)
  have 7: "k < length (questionsToAdd st)
       \<longrightarrow> new ! (length old + k)
             = with_id (js ''lib-'' @ show_nat (now si li k) @ js ''-'' @ random si li k)
                 (questionsToAdd st ! k) \<and>
           q_id (new ! (length old + k))
             = js ''lib-'' @ show_nat (now si li k) @ js ''-'' @ random si li k \<and>
           with_id [] (new ! (length old + k)) = with_id [] (questionsToAdd st ! k)"
    by (simp add: n q_id_with_id with_id_erase id)
  have 8: "k < length (questionsToAdd st) \<and> k' < length (questionsToAdd st) \<and>
     (now si li k \<noteq> now si li k' \<or> random si li k \<noteq> random si li k')
       \<longrightarrow> q_id (new ! (length old + k)) \<noteq> q_id (new ! (length old + k'))"
    by (auto simp: n q_id_with_id libId_inj)
  have 9: "concat (map er_questions (extractionResults st'))
      = filter (\<lambda>q. q_id q \<notin> selectedStagedIds st)
          (concat (map er_questions (extractionResults st)))"
    unfolding R by (rule commit_remaining)
  have 10: "list_all (\<lambda>r. er_questions r \<noteq> [] \<or> er_error r \<noteq> None) (extractionResults st')"
    unfolding R by (auto simp: list_all_iff truthy_def split: option.splits)
  have 11: "filter (\<lambda>r. er_error r \<noteq> None) (extractionResults st')
      = map (\<lambda>r. r\<lparr>er_questions := filter (\<lambda>q. q_id q \<notin> selectedStagedIds st) (er_questions r)\<rparr>)
          (filter (\<lambda>r. er_error r \<noteq> None) (extractionResults st))"
    unfolding R using assms(7) by (rule commit_errors_retained)
  have 12: "selectedStagedIds st' = {}"
    using assms(4,5,6) by (simp add: st'_def handleAddQuestionsToLecture_def)
  from 1 2 3 4 5 6 7 8 9 10 11 12 show ?thesis by blast
qed

text \<open>
  Claim C4 as stated fails in two ways. The new ids are made of the clock reading and of
  the random text only, so that two selected questions for which both are equal get the
  same id. And when no lecture of the chosen subject has the chosen id, as after the
  chosen lecture was deleted, the selected questions are removed from staging although
  the Library stays as it is.
\<close>

theorem commit_fresh_ids_counterexample:
  "map q_id (lec_questions (sub_lectures (subjects
       (handleAddQuestionsToLecture (\<lambda>si li k. 7) (\<lambda>si li k. js ''0.5'')
          (staged\<lparr>selectedStagedIds := {js ''ext-1'', js ''ext-2''}\<rparr>)) ! 0) ! 1))
     = [js ''lib-7-0.5'', js ''lib-7-0.5''] \<and>
   js ''gone'' \<notin> lecture_ids lib3 \<and>
   subjects (handleAddQuestionsToLecture (\<lambda>si li k. 7 + k) (\<lambda>si li k. js ''0.5'')
       (staged\<lparr>selectedLectureId := js ''gone''\<rparr>)) = lib3 \<and>
   concat (map er_questions (extractionResults
       (handleAddQuestionsToLecture (\<lambda>si li k. 7 + k) (\<lambda>si li k. js ''0.5'')
          (staged\<lparr>selectedLectureId := js ''gone''\<rparr>))))
     = [ShortAnswerQuestion (js ''ext-2'') (js ''Q2'') []]"
  by (simp add: handleAddQuestionsToLecture_def questionsToAdd_def staged_def lib3_def lec_def
      lecture_ids_def mapi_def libId_def js_def show_nat.simps)

theorem commit_appends_selected_witness:
  "lec_questions (sub_lectures
       (subjects (handleAddQuestionsToLecture (\<lambda>si li k. 7) (\<lambda>si li k. js ''0.5'') staged) ! 0) ! 1)
     = [ShortAnswerQuestion (js ''lib-7-0.5'') (js ''Q1'') (js ''A1'')] \<and>
   concat (map er_questions (extractionResults
       (handleAddQuestionsToLecture (\<lambda>si li k. 7) (\<lambda>si li k. js ''0.5'') staged)))
     = [ShortAnswerQuestion (js ''ext-2'') (js ''Q2'') []] \<and>
   map er_error (filter (\<lambda>r. er_error r \<noteq> None) (extractionResults
       (handleAddQuestionsToLecture (\<lambda>si li k. 7) (\<lambda>si li k. js ''0.5'') staged)))
     = [Some (js ''Failed'')] \<and>
   selectedStagedIds (handleAddQuestionsToLecture (\<lambda>si li k. 7) (\<lambda>si li k. js ''0.5'') staged) = {}"
proof -
  let ?st' = "handleAddQuestionsToLecture (\<lambda>si li k. 7) (\<lambda>si li k. js ''0.5'') staged"
  let ?new = "lec_questions (sub_lectures (subjects ?st' ! 0) ! 1)"
  have q: "questionsToAdd staged = [ShortAnswerQuestion (js ''ext-1'') (js ''Q1'') (js ''A1'')]"
    by (simp add: questionsToAdd_def staged_def js_def)
  have h: "selectedSubjectId staged \<noteq> []" "selectedLectureId staged \<noteq> []"
    "questionsToAdd staged \<noteq> []"
    "list_all (\<lambda>r. er_error r = None \<or> truthy (er_error r)) (extractionResults staged)"
    "0 < length (subjects staged)" "sub_id (subjects staged ! 0) = selectedSubjectId staged"
    "1 < length (sub_lectures (subjects staged ! 0))"
    "lec_id (sub_lectures (subjects staged ! 0) ! 1) = selectedLectureId staged"
    unfolding q by (simp_all add: staged_def js_def truthy_def lib3_def lec_def)
  have old: "lec_questions (sub_lectures (subjects staged ! 0) ! 1) = []"
    by (simp add: staged_def lib3_def lec_def)
  have i: "js ''lib-'' @ show_nat 7 @ js ''-'' @ js ''0.5'' = js ''lib-7-0.5''"
    by (simp add: js_def show_nat.simps)
  have k: "(0::nat) < length (questionsToAdd staged)" unfolding q by simp
  note t = commit_appends_selected [where st = staged and now = "\<lambda>si li k. 7"
      and random = "\<lambda>si li k. js ''0.5''" and si = 0 and li = 1 and k = 0 and k' = 0
      and sj = 0 and lj = 0, OF h]
  from t have "length ?new = length (lec_questions (sub_lectures (subjects staged ! 0) ! 1))
      + length (questionsToAdd staged)"
    by blast
  then have l: "length ?new = 1" unfolding old q by simp
  from t k have "?new ! (length (lec_questions (sub_lectures (subjects staged ! 0) ! 1)) + 0)
      = with_id (js ''lib-'' @ show_nat 7 @ js ''-'' @ js ''0.5'') (questionsToAdd staged ! 0)"
    by blast
  then have "?new ! 0 = ShortAnswerQuestion (js ''lib-7-0.5'') (js ''Q1'') (js ''A1'')"
    unfolding old q i by simp
  with l have 1: "?new = [ShortAnswerQuestion (js ''lib-7-0.5'') (js ''Q1'') (js ''A1'')]"
    by (cases ?new) auto
  from t have "concat (map er_questions (extractionResults ?st'))
      = filter (\<lambda>q. q_id q \<notin> selectedStagedIds staged)
          (concat (map er_questions (extractionResults staged)))"
    by blast
  then have 2: "concat (map er_questions (extractionResults ?st'))
     = [ShortAnswerQuestion (js ''ext-2'') (js ''Q2'') []]"
    by (simp add: staged_def js_def)
  from t have "filter (\<lambda>r. er_error r \<noteq> None) (extractionResults ?st')
      = map (\<lambda>r. r\<lparr>er_questions := filter (\<lambda>q. q_id q \<notin> selectedStagedIds staged) (er_questions r)\<rparr>)
          (filter (\<lambda>r. er_error r \<noteq> None) (extractionResults staged))"
    by blast
  then have 3: "map er_error (filter (\<lambda>r. er_error r \<noteq> None) (extractionResults ?st'))
     = [Some (js ''Failed'')]"
    by (simp add: staged_def)
  from t have 4: "selectedStagedIds ?st' = {}" by blast
  from 1 2 3 4 show ?thesis by blast
qed

subsection \<open>The save task\<close>

text \<open>
  Claim C3. Let the content about to be written exist (\<^verbatim>\<open>btoa\<close> succeeded). When the
  read returns a file whose content equals it up to white space, the save status becomes
  \<open>Saved\<close> and \<^verbatim>\<open>saveGithubFile\<close> is not called. When the contents differ, it is called
  exactly once, with the new content and the sha just read; when there is no file, with
  \<^verbatim>\<open>null\<close>. Whenever it is called, the read did not return equal content.
\<close>

theorem saveTask_writes_only_on_difference:
  assumes "btoa (stringify (subjects st)) = Some encodedContent"
  shows
    "(fileData = Found content sha \<and> strip_ws content = strip_ws encodedContent
        \<longrightarrow> saveStatus (saveTask stringify btoa fileData saveGithubFile st) = Saved \<and>
            githubWrites (saveTask stringify btoa fileData saveGithubFile st) = githubWrites st) \<and>
     (fileData = Found content sha \<and> strip_ws content \<noteq> strip_ws encodedContent \<and> sha \<noteq> []
        \<longrightarrow> githubWrites (saveTask stringify btoa fileData saveGithubFile st)
              = githubWrites st @ [(encodedContent, Some sha)]) \<and>
     (fileData = NotFound
        \<longrightarrow> githubWrites (saveTask stringify btoa fileData saveGithubFile st)
              = githubWrites st @ [(encodedContent, None)]) \<and>
     (githubWrites (saveTask stringify btoa fileData saveGithubFile st) \<noteq> githubWrites st
        \<longrightarrow> fileData = NotFound \<or>
            (\<exists>content sha. fileData = Found content sha \<and>
               strip_ws content \<noteq> strip_ws encodedContent))"
proof -
  have 1: "fileData = Found content sha \<and> strip_ws content = strip_ws encodedContent
        \<longrightarrow> saveStatus (saveTask stringify btoa fileData saveGithubFile st) = Saved \<and>
            githubWrites (saveTask stringify btoa fileData saveGithubFile st) = githubWrites st"
    using assms by (simp add: saveTask_def)
  have 2: "fileData = Found content sha \<and> strip_ws content \<noteq> strip_ws encodedContent \<and> sha \<noteq> []
        \<longrightarrow> githubWrites (saveTask stringify btoa fileData saveGithubFile st)
              = githubWrites st @ [(encodedContent, Some sha)]"
    using assms by (simp add: saveTask_def shaOrNull_def saveFailed_def Let_def split: WriteOutcome.splits)
  have 3: "fileData = NotFound
        \<longrightarrow> githubWrites (saveTask stringify btoa fileData saveGithubFile st)
              = githubWrites st @ [(encodedContent, None)]"
    using assms by (simp add: saveTask_def shaOrNull_def saveFailed_def Let_def split: WriteOutcome.splits)
  have 4: "githubWrites (saveTask stringify btoa fileData saveGithubFile st) \<noteq> githubWrites st
        \<longrightarrow> fileData = NotFound \<or>
            (\<exists>content sha. fileData = Found content sha \<and>
               strip_ws content \<noteq> strip_ws encodedContent)"
    using assms by (cases fileData) (auto simp: saveTask_def saveFailed_def Let_def)
  from 1 2 3 4 show ?thesis by blast
qed

theorem saveTask_writes_only_on_difference_witness:
  "saveStatus (saveTask (\<lambda>L. js ''[]'') (\<lambda>s. Some (js ''W10='')) (Found (js ''W10= '') (js ''abc''))
      (\<lambda>c s. Written (Some (js ''def''))) app0) = Saved \<and>
   githubWrites (saveTask (\<lambda>L. js ''[]'') (\<lambda>s. Some (js ''W10='')) (Found (js ''W10= '') (js ''abc''))
      (\<lambda>c s. Written (Some (js ''def''))) app0) = [] \<and>
   githubWrites (saveTask (\<lambda>L. js ''[]'') (\<lambda>s. Some (js ''W10='')) (Found (js ''e30='') (js ''abc''))
      (\<lambda>c s. Written (Some (js ''def''))) app0) = [(js ''W10='', Some (js ''abc''))] \<and>
   githubWrites (saveTask (\<lambda>L. js ''[]'') (\<lambda>s. Some (js ''W10='')) NotFound
      (\<lambda>c s. Written (Some (js ''def''))) app0) = [(js ''W10='', None)]"
proof -
  have b: "(\<lambda>s. Some (js ''W10='')) ((\<lambda>L. js ''[]'') (subjects app0)) = Some (js ''W10='')"
    by simp
  have e: "strip_ws (js ''W10= '') = strip_ws (js ''W10='')"
    by (simp add: strip_ws_def js_def is_space_def)
  have n: "strip_ws (js ''e30='') \<noteq> strip_ws (js ''W10='') \<and> js ''abc'' \<noteq> []"
    by (simp add: strip_ws_def js_def is_space_def)
  have w: "githubWrites app0 = []" by (simp add: app0_def)
  note t = saveTask_writes_only_on_difference [where st = app0 and stringify = "\<lambda>L. js ''[]''"
      and btoa = "\<lambda>s. Some (js ''W10='')" and encodedContent = "js ''W10=''"
      and saveGithubFile = "\<lambda>c s. Written (Some (js ''def''))", OF b]
  from t [where fileData = "Found (js ''W10= '') (js ''abc'')" and content = "js ''W10= ''"
      and sha = "js ''abc''"] e w
  have 1: "saveStatus (saveTask (\<lambda>L. js ''[]'') (\<lambda>s. Some (js ''W10='')) (Found (js ''W10= '') (js ''abc''))
      (\<lambda>c s. Written (Some (js ''def''))) app0) = Saved \<and>
   githubWrites (saveTask (\<lambda>L. js ''[]'') (\<lambda>s. Some (js ''W10='')) (Found (js ''W10= '') (js ''abc''))
      (\<lambda>c s. Written (Some (js ''def''))) app0) = []"
    by simp
  from t [where fileData = "Found (js ''e30='') (js ''abc'')" and content = "js ''e30=''"
      and sha = "js ''abc''"] n w
  have 2: "githubWrites (saveTask (\<lambda>L. js ''[]'') (\<lambda>s. Some (js ''W10='')) (Found (js ''e30='') (js ''abc''))
      (\<lambda>c s. Written (Some (js ''def''))) app0) = [(js ''W10='', Some (js ''abc''))]"
    by simp
  from t [where fileData = NotFound] w
  have 3: "githubWrites (saveTask (\<lambda>L. js ''[]'') (\<lambda>s. Some (js ''W10='')) NotFound
      (\<lambda>c s. Written (Some (js ''def''))) app0) = [(js ''W10='', None)]"
    by simp
  from 1 2 3 show ?thesis by blast
qed

subsection \<open>PDF export\<close>

lemma toc_inv_style [simp]:
  "toc_inv c (setFont s d) = toc_inv c d"
  "toc_inv c (setFontSize n d) = toc_inv c d"
  "toc_inv c (setTextColor k d) = toc_inv c d"
  "toc_inv c (setFillColor k d) = toc_inv c d"
  "toc_inv c (setLineDashPattern p d) = toc_inv c d"
  by (simp_all add: toc_inv_def setFont_def setFontSize_def setTextColor_def setFillColor_def
      setLineDashPattern_def)

lemma toc_inv_addPage: "toc_inv c d \<Longrightarrow> toc_inv c (addPage d)"
  by (auto simp: toc_inv_def addPage_def)

lemma take_drop1_update:
  "k = 0 \<or> n < k \<Longrightarrow> take n (drop 1 (xs[k := v])) = take n (drop 1 xs)"
proof (cases "k = 0")
  case True
  then show ?thesis by (simp add: drop_update_cancel)
next
  case False
  assume "k = 0 \<or> n < k"
  with False have "n \<le> k - 1" by simp
  then have "take n ((drop 1 xs)[k - 1 := v]) = take n (drop 1 xs)"
    by (rule take_update_cancel)
  moreover from False have "drop 1 (xs[k := v]) = (drop 1 xs)[k - 1 := v]"
    by (simp add: drop_update_swap)
  ultimately show ?thesis by simp
qed

lemma toc_inv_draw:
  assumes "toc_inv c d"
  shows "toc_inv c (draw dop d)"
proof -
  from assms have "currentPage d - 1 = 0 \<or> length c < currentPage d - 1"
    by (auto simp: toc_inv_def)
  then have "take (length c) (drop 1 ((pages d)[currentPage d - 1 := v]))
      = take (length c) (drop 1 (pages d))" for v
    by (rule take_drop1_update)
  with assms show ?thesis by (simp add: toc_inv_def draw_def)
qed

lemma toc_inv_ops:
  "toc_inv c d \<Longrightarrow> toc_inv c (doc_text ls x y r f d)"
  "toc_inv c d \<Longrightarrow> toc_inv c (doc_rect x y w h d)"
  "toc_inv c d \<Longrightarrow> toc_inv c (doc_line x y x' y' d)"
  by (simp_all add: doc_text_def doc_rect_def doc_line_def toc_inv_draw)

lemma toc_inv_fold_rect:
  "toc_inv c d \<Longrightarrow> toc_inv c (fold (\<lambda>(index, ln) dd. doc_rect (a index) (b index) (w dd ln) h dd) ils d)"
  by (induction ils arbitrary: d) (auto simp: toc_inv_ops)

lemma toc_inv_addWrappedText:
  assumes "toc_inv c d"
  shows "toc_inv c (fst (addWrappedText M txt x yPos fsize fstyle highlight d))"
  using assms
  by (simp add: addWrappedText_def Let_def toc_inv_ops toc_inv_addPage toc_inv_fold_rect)


lemma toc_inv_emit:
  "toc_inv c (l_doc l) \<Longrightarrow> toc_inv c (l_doc (emit M txt x fsize fstyle highlight gap l))"
  by (simp add: emit_def Let_def toc_inv_addWrappedText)

lemma toc_inv_renderTocEntry:
  assumes "toc_inv c (l_doc l)"
  shows "toc_inv c (l_doc (renderTocEntry M b entry l))"
proof -
  let ?l1 = "if l_y l > pageHeight M - margin
             then l\<lparr>l_doc := addPage (l_doc l), l_y := margin\<rparr> else l"
  from assms have "toc_inv c (l_doc ?l1)" by (simp add: toc_inv_addPage)
  then show ?thesis
    by (simp add: renderTocEntry_def Let_def toc_inv_ops)
qed

lemma toc_inv_fold_toc:
  "toc_inv c (l_doc l) \<Longrightarrow> toc_inv c (l_doc (fold (renderTocEntry M b) es l))"
  by (induction es arbitrary: l) (simp_all add: toc_inv_renderTocEntry)

lemma pages_insertTocPage: "pages (insertTocPage d) = [] # pages d"
  by (cases "pages d = []")
     (simp_all add: insertTocPage_def movePage_def setPage_def addPage_def splice_insert_def
       splice_remove_def nth_append Let_def)

lemma currentPage_insertTocPage: "currentPage (insertTocPage d) = 1"
  by (cases "pages d = []")
     (simp_all add: insertTocPage_def movePage_def setPage_def addPage_def splice_insert_def
       splice_remove_def nth_append Let_def)

lemma toc_inv_insertTocPage: "toc_inv (pages d) (insertTocPage d)"
  by (simp add: toc_inv_def pages_insertTocPage currentPage_insertTocPage)

lemma toc_inv_tocPass: "toc_inv (pages (l_doc l)) (l_doc (tocPass M b l))"
  by (simp add: tocPass_def Let_def toc_inv_fold_toc toc_inv_emit toc_inv_insertTocPage)

lemma pages_stampFooter:
  assumes "0 < i" "i \<le> length (pages d)"
  shows "length (pages (stampFooter M n i d)) = length (pages d)"
    and "j \<noteq> i - 1 \<Longrightarrow> pages (stampFooter M n i d) ! j = pages d ! j"
    and "take (length (pages d ! (i - 1))) (pages (stampFooter M n i d) ! (i - 1))
           = pages d ! (i - 1)"
    and "map draw_text (drop (length (pages d ! (i - 1))) (pages (stampFooter M n i d) ! (i - 1)))
           = [None, Some [footerText (i - 1) n]]"
  using assms
  by (simp_all add: stampFooter_def Let_def setPage_def setFontSize_def setFillColor_def
      setTextColor_def doc_rect_def doc_text_def draw_def draw_text_def)

lemma fold_stampFooter:
  assumes "k < length (pages d)"
  shows "length (pages (fold (stampFooter M n) [2 ..< k + 2] d)) = length (pages d) \<and>
    (\<forall>j. (j = 0 \<or> k < j) \<longrightarrow> pages (fold (stampFooter M n) [2 ..< k + 2] d) ! j = pages d ! j) \<and>
    (\<forall>j. 1 \<le> j \<and> j \<le> k \<longrightarrow>
       take (length (pages d ! j)) (pages (fold (stampFooter M n) [2 ..< k + 2] d) ! j)
         = pages d ! j \<and>
       map draw_text (drop (length (pages d ! j)) (pages (fold (stampFooter M n) [2 ..< k + 2] d) ! j))
         = [None, Some [footerText j n]])"
  using assms
proof (induction k)
  case 0
  then show ?case by simp
next
  case (Suc k)
  let ?d = "fold (stampFooter M n) [2 ..< k + 2] d"
  let ?d' = "fold (stampFooter M n) [2 ..< Suc k + 2] d"
  from Suc have IH: "length (pages ?d) = length (pages d)"
    "\<And>j. j = 0 \<or> k < j \<Longrightarrow> pages ?d ! j = pages d ! j"
    "\<And>j. 1 \<le> j \<and> j \<le> k \<Longrightarrow> take (length (pages d ! j)) (pages ?d ! j) = pages d ! j \<and>
       map draw_text (drop (length (pages d ! j)) (pages ?d ! j)) = [None, Some [footerText j n]]"
    by auto
  have step: "?d' = stampFooter M n (k + 2) ?d" by simp
  have v: "0 < k + 2" "k + 2 \<le> length (pages ?d)" using Suc.prems IH(1) by auto
  note P = pages_stampFooter [where M = M and n = n, OF v]
  have same: "pages ?d ! (k + 1) = pages d ! (k + 1)" by (rule IH(2)) simp
  have 1: "length (pages ?d') = length (pages d)" using P(1) IH(1) step by simp
  have 2: "pages ?d' ! j = pages d ! j" if "j = 0 \<or> Suc k < j" for j
  proof -
    from that have "j \<noteq> k + 2 - 1" by auto
    then have "pages ?d' ! j = pages ?d ! j" unfolding step by (rule P(2))
    also have "\<dots> = pages d ! j" using that by (intro IH(2)) auto
    finally show ?thesis .
  qed
  have 3: "take (length (pages d ! j)) (pages ?d' ! j) = pages d ! j \<and>
       map draw_text (drop (length (pages d ! j)) (pages ?d' ! j)) = [None, Some [footerText j n]]"
    if "1 \<le> j \<and> j \<le> Suc k" for j
  proof (cases "j = Suc k")
    case True
    with P(3,4) same show ?thesis unfolding step by simp
  next
    case False
    with that have j: "1 \<le> j \<and> j \<le> k" by simp
    from False have "j \<noteq> k + 2 - 1" by simp
    then have "pages ?d' ! j = pages ?d ! j" unfolding step by (rule P(2))
    with IH(3) [OF j] show ?thesis by simp
  qed
  from 1 2 3 show ?case by blast
qed


text \<open>
  Claim C2. The page for the table of contents is inserted in front of the content pages,
  so that content page \<open>i\<close> of \<open>N\<close> becomes page \<open>i + 1\<close> of the document. In the
  exported document the first page is the table of contents as drawn, without a footer,
  and for every \<open>i\<close> from 1 to \<open>N\<close> page \<open>i + 1\<close> is content page \<open>i\<close> followed by the
  footer: a filled rectangle and the text \<^verbatim>\<open>Page i of N\<close>. This holds for all
  measurements, whichever way the overflow tests go: a page that the table of contents
  adds is appended after the content pages and gets no footer.
\<close>

theorem footers_number_content_pages:
  fixes M st
  defines "content \<equiv> pages (l_doc (contentPass M st))"
    and "final \<equiv> pages (fst (generatePdf M st))"
  shows "pages (insertTocPage (l_doc (contentPass M st))) = [] # content \<and>
    length content < length final \<and>
    final ! 0 = pages (l_doc (tocPass M (pdfTextSize st) (contentPass M st))) ! 0 \<and>
    (1 \<le> i \<and> i \<le> length content
       \<longrightarrow> take (length (content ! (i - 1))) (final ! i) = content ! (i - 1) \<and>
           map draw_text (drop (length (content ! (i - 1))) (final ! i))
             = [None, Some [footerText i (length content)]])"
proof -
  let ?W = "l_doc (tocPass M (pdfTextSize st) (contentPass M st))"
  have inv: "toc_inv content ?W" unfolding content_def by (rule toc_inv_tocPass)
  then have len: "length content < length (pages ?W)"
    and td: "take (length content) (drop 1 (pages ?W)) = content"
    by (simp_all add: toc_inv_def)
  have fin: "final = pages (fold (stampFooter M (length content)) [2 ..< length content + 2] ?W)"
    by (simp add: final_def generatePdf_def Let_def content_def)
  note F = fold_stampFooter [OF len, of M "length content", folded fin]
  have w: "pages ?W ! i = content ! (i - 1)" if "1 \<le> i \<and> i \<le> length content"
  proof -
    from that have lt: "i - 1 < length content" and i: "1 + (i - 1) = i" by auto
    have "content ! (i - 1) = take (length content) (drop 1 (pages ?W)) ! (i - 1)"
      using td by simp
    also have "\<dots> = drop 1 (pages ?W) ! (i - 1)" using lt by (rule nth_take)
    also have "\<dots> = pages ?W ! (1 + (i - 1))" using len by (intro nth_drop) simp
    finally show ?thesis using i by simp
  qed
  have 1: "pages (insertTocPage (l_doc (contentPass M st))) = [] # content"
    by (simp add: pages_insertTocPage content_def)
  have 2: "length content < length final" using F len by simp
  have 3: "final ! 0 = pages ?W ! 0" using F by simp
  have 4: "1 \<le> i \<and> i \<le> length content
       \<longrightarrow> take (length (content ! (i - 1))) (final ! i) = content ! (i - 1) \<and>
           map draw_text (drop (length (content ! (i - 1))) (final ! i))
             = [None, Some [footerText i (length content)]]"
    using F w by auto
  from 1 2 3 4 show ?thesis by blast
qed

lemma length_pages_style [simp]:
  "length (pages (setFont s d)) = length (pages d)"
  "length (pages (setFontSize n d)) = length (pages d)"
  "length (pages (setTextColor k d)) = length (pages d)"
  "length (pages (setFillColor k d)) = length (pages d)"
  by (simp_all add: setFont_def setFontSize_def setTextColor_def setFillColor_def)

lemma length_pages_draw [simp]:
  "length (pages (draw dop d)) = length (pages d)"
  "length (pages (doc_text ls x y r f d)) = length (pages d)"
  "length (pages (doc_rect x y w h d)) = length (pages d)"
  by (simp_all add: draw_def doc_text_def doc_rect_def)

lemma length_pages_addPage [simp]: "length (pages (addPage d)) = Suc (length (pages d))"
  by (simp add: addPage_def)

lemma length_pages_fold_rect [simp]:
  "length (pages (fold (\<lambda>(index, ln) dd. doc_rect (a index) (b index) (w dd ln) h dd) ils d))
     = length (pages d)"
  by (induction ils arbitrary: d) auto

lemma M0_simps:
  "pageHeight M0 = 100" "pageWidth M0 = 210" "scaleFactor M0 = 1"
  "splitTextToSize M0 s t w = (t, [])"
  "getTextDimensions M0 s ls fsize f = (10, 30 * real (length ls))"
  "getStringUnitWidth M0 s t = real (length t)"
  by (simp_all add: M0_def)

lemma addWrappedText_M0:
  "length (pages (fst (addWrappedText M0 txt x yPos fsize fstyle hl d)))
     = (if yPos + 30 > 85 then Suc (length (pages d)) else length (pages d))"
  "snd (addWrappedText M0 txt x yPos fsize fstyle hl d)
     = (if yPos + 30 > 85 then 45 else yPos + 30)"
  by (simp_all add: addWrappedText_def Let_def M0_simps margin_def)

lemma emit_M0:
  "length (pages (l_doc (emit M0 txt x fsize fstyle hl gap l)))
     = (if l_y l > 55 then Suc (length (pages (l_doc l))) else length (pages (l_doc l)))"
  "l_y (emit M0 txt x fsize fstyle hl gap l) = (if l_y l > 55 then 45 else l_y l + 30) + gap"
  by (simp_all add: emit_def Let_def addWrappedText_M0)

lemma heading_M0:
  "length (pages (l_doc (heading M0 fsize title level l)))
     = (if l_y l + fsize * 1.5 > 85 then Suc (length (pages (l_doc l))) else length (pages (l_doc l)))"
  "l_y (heading M0 fsize title level l) = (if l_y l + fsize * 1.5 > 85 then 15 else l_y l)"
  by (simp_all add: heading_def Let_def M0_simps margin_def)

lemma content_pdf0: "length (pages (l_doc (contentPass M0 pdf0))) = 2"
proof -
  let ?l0 = "\<lparr>l_doc = setTextColor defaultTextColor newDoc, l_y = margin, l_toc = []\<rparr>"
  let ?l1 = "heading M0 (12 * 1.4) (js ''S'') SubjectLevel ?l0"
  let ?l2 = "emit M0 (js ''S'') margin (12 * 1.4) (js ''bold'') True 10 ?l1"
  let ?l3 = "heading M0 (12 * 1.2) (js ''L'') LectureLevel ?l2"
  let ?l4 = "emit M0 (js ''L'') margin (12 * 1.2) (js ''bold'') True 8 ?l3"
  let ?l5 = "emit M0 (show_nat (0 + 1) @ js ''. '' @ js ''Why?'') margin 12 (js ''normal'') False 5 ?l4"
  let ?l6 = "emit M0 (js ''Answer: '' @ js ''So'') (margin + 5) 12 (js ''normal'') True 2 ?l5"
  have c: "contentPass M0 pdf0 = ?l6\<lparr>l_y := l_y ?l6 + 8\<rparr>"
    by (simp add: contentPass_def pdf0_def app0_def renderSubject_def renderLecture_def
        renderQuestion_def Let_def js_def)
  have 0: "length (pages (l_doc ?l0)) = 1" "l_y ?l0 = 15"
    by (simp_all add: newDoc_def margin_def)
  have 1: "length (pages (l_doc ?l1)) = 1" "l_y ?l1 = 15"
    using 0 by (simp_all add: heading_M0)
  have 2: "length (pages (l_doc ?l2)) = 1" "l_y ?l2 = 55"
    using 1 by (simp_all add: emit_M0)
  have 3: "length (pages (l_doc ?l3)) = 1" "l_y ?l3 = 55"
    using 2 by (simp_all add: heading_M0)
  have 4: "length (pages (l_doc ?l4)) = 1" "l_y ?l4 = 93"
    using 3 by (simp_all add: emit_M0)
  have 5: "length (pages (l_doc ?l5)) = 2" "l_y ?l5 = 50"
    using 4 by (simp_all add: emit_M0)
  have 6: "length (pages (l_doc ?l6)) = 2"
    using 5 by (simp add: emit_M0)
  show ?thesis unfolding c using 6 by simp
qed


lemma footerText_2: "footerText 1 2 = js ''Page 1 of 2''" "footerText 2 2 = js ''Page 2 of 2''"
  by (simp_all add: footerText_def js_def show_nat.simps)

theorem footers_number_content_pages_witness:
  "length (pages (l_doc (contentPass M0 pdf0))) = 2 \<and>
   map draw_text (drop (length (pages (l_doc (contentPass M0 pdf0)) ! 0))
       (pages (fst (generatePdf M0 pdf0)) ! 1)) = [None, Some [js ''Page 1 of 2'']] \<and>
   map draw_text (drop (length (pages (l_doc (contentPass M0 pdf0)) ! 1))
       (pages (fst (generatePdf M0 pdf0)) ! 2)) = [None, Some [js ''Page 2 of 2'']]"
proof -
  note n = content_pdf0
  have h1: "1 \<le> (1::nat) \<and> 1 \<le> length (pages (l_doc (contentPass M0 pdf0)))"
    and h2: "1 \<le> (2::nat) \<and> 2 \<le> length (pages (l_doc (contentPass M0 pdf0)))"
    by (simp_all add: n)
  from footers_number_content_pages [of M0 pdf0 1] h1
  have "map draw_text (drop (length (pages (l_doc (contentPass M0 pdf0)) ! (1 - 1)))
       (pages (fst (generatePdf M0 pdf0)) ! 1))
      = [None, Some [footerText 1 (length (pages (l_doc (contentPass M0 pdf0))))]]"
    by blast
  then have 1: "map draw_text (drop (length (pages (l_doc (contentPass M0 pdf0)) ! 0))
       (pages (fst (generatePdf M0 pdf0)) ! 1)) = [None, Some [js ''Page 1 of 2'']]"
    unfolding n footerText_2 by simp
  from footers_number_content_pages [of M0 pdf0 2] h2
  have "map draw_text (drop (length (pages (l_doc (contentPass M0 pdf0)) ! (2 - 1)))
       (pages (fst (generatePdf M0 pdf0)) ! 2))
      = [None, Some [footerText 2 (length (pages (l_doc (contentPass M0 pdf0))))]]"
    by blast
  then have 2: "map draw_text (drop (length (pages (l_doc (contentPass M0 pdf0)) ! 1))
       (pages (fst (generatePdf M0 pdf0)) ! 2)) = [None, Some [js ''Page 2 of 2'']]"
    unfolding n footerText_2 by simp
  from n 1 2 show ?thesis by blast
qed

end
